theory Spec2Isabelle
  imports Complex_Main
begin

section \<open>Data model\<close>

text \<open>
  Modelled from the spec: the \<open>Buttons\<close> enumeration, the stick keys and
  \<open>create_input_packet\<close> live in the \<open>nxbt\<close> module, which \<open>controller_mapper.py\<close> only
  imports. The Snapshot of the spec is a mapping from the button identifiers to their
  pressed state and, for each of the two sticks, a pair of signed integers; a newly
  constructed Snapshot has every button released and both sticks centred.
\<close>

datatype Buttons =
    Buttons_B | Buttons_A | Buttons_X | Buttons_Y
  | Buttons_L | Buttons_R | Buttons_ZL | Buttons_ZR
  | Buttons_PLUS | Buttons_MINUS | Buttons_HOME
  | Buttons_DPAD_UP | Buttons_DPAD_DOWN | Buttons_DPAD_LEFT | Buttons_DPAD_RIGHT

datatype stick_name = L_STICK | R_STICK

record stick =
  X_VALUE :: int
  Y_VALUE :: int

record input_packet =
  buttons :: "Buttons \<Rightarrow> bool"
  sticks :: "stick_name \<Rightarrow> stick"

definition create_input_packet :: input_packet where
  "create_input_packet =
     \<lparr>buttons = (\<lambda>_. False), sticks = (\<lambda>_. \<lparr>X_VALUE = 0, Y_VALUE = 0\<rparr>)\<rparr>"

text \<open>The dictionary assignments of the source: \<open>packet[button] = v\<close>,
  \<open>packet[stick]['X_VALUE'] = v\<close> and \<open>packet[stick]['Y_VALUE'] = v\<close>.\<close>

definition set_button :: "Buttons \<Rightarrow> bool \<Rightarrow> input_packet \<Rightarrow> input_packet" where
  "set_button b v p = p\<lparr>buttons := (buttons p)(b := v)\<rparr>"

definition set_x_value :: "stick_name \<Rightarrow> int \<Rightarrow> input_packet \<Rightarrow> input_packet" where
  "set_x_value s v p = p\<lparr>sticks := (sticks p)(s := (sticks p s)\<lparr>X_VALUE := v\<rparr>)\<rparr>"

definition set_y_value :: "stick_name \<Rightarrow> int \<Rightarrow> input_packet \<Rightarrow> input_packet" where
  "set_y_value s v p = p\<lparr>sticks := (sticks p)(s := (sticks p s)\<lparr>Y_VALUE := v\<rparr>)\<rparr>"

text \<open>A raw event of the \<open>inputs\<close> library: its kind, its identifier and its native value.\<close>

record event =
  ev_type :: string
  code :: string
  state :: int

text \<open>Exceptions (all of them subclasses of Python's \<open>Exception\<close>): the one
  \<open>connect_controller\<close> raises with the endpoint's error detail, a failure of the device
  pull \<open>inputs.get_gamepad\<close>, and a rejection of \<open>set_controller_input\<close> by the endpoint.\<close>

datatype exn =
    ConnectionError string
  | TransientInputError string
  | PushFailure string

text \<open>What the mapper hands to its logger and prints on standard output. The formatted
  messages of the source are kept as their arguments.\<close>

datatype log_entry =
    Debug_Button string Buttons bool
  | Debug_Trigger string Buttons bool
  | Debug_Dpad_X bool bool
  | Debug_Dpad_Y bool bool
  | Debug_Stick string stick_name string int
  | Error_Processing_Input exn

datatype output_line = Print_Event string string int

text \<open>
  Modelled from the spec: the virtual controller endpoint \<open>Nxbt\<close> is not part of
  \<open>controller_mapper.py\<close>. The spec gives it \<open>create_session\<close>, \<open>get_state\<close>,
  \<open>push_input(session_id, snapshot)\<close>, which may fail, and \<open>release_session\<close>. The
  model records every call; whether the endpoint currently rejects a push is a field of
  its own that the mapper never writes.
\<close>

record Nxbt =
  created :: "int list"
  input_calls :: "(int option \<times> input_packet) list"
  push_fails :: bool
  removed :: "int list"

definition Nxbt_init :: Nxbt where
  "Nxbt_init = \<lparr>created = [], input_calls = [], push_fails = False, removed = []\<rparr>"

definition set_controller_input ::
  "int option \<Rightarrow> input_packet \<Rightarrow> Nxbt \<Rightarrow> exn option \<times> Nxbt" where
  "set_controller_input idx packet n =
     (if push_fails n then Some (PushFailure ''push rejected'') else None,
      n\<lparr>input_calls := input_calls n @ [(idx, packet)]\<rparr>)"

definition remove_controller :: "int \<Rightarrow> Nxbt \<Rightarrow> Nxbt" where
  "remove_controller idx n = n\<lparr>removed := removed n @ [idx]\<rparr>"

text \<open>What \<open>nx.state[idx]\<close> shows at one poll: the lifecycle state and the error detail.\<close>

record report =
  lifecycle :: string
  errors :: string

record Thread =
  daemon :: bool
  started :: bool

text \<open>
  The mapper object. Besides the attributes set by \<open>__init__\<close> the record carries the
  effects of the methods on the world: what was logged and printed, the milliseconds spent
  in \<open>time.sleep\<close>, and the number of worker threads running \<open>_input_loop\<close>.
\<close>

record ControllerMapper =
  debug :: bool
  test_mode :: bool
  nx :: Nxbt
  controller_idx :: "int option"
  button_mappings :: "string \<rightharpoonup> Buttons"
  stick_mappings :: "string \<rightharpoonup> (stick_name \<times> string)"
  trigger_mappings :: "string \<rightharpoonup> Buttons"
  current_input :: input_packet
  running :: bool
  input_thread :: "Thread option"
  logger :: "log_entry list"
  stdout :: "output_line list"
  slept_ms :: nat
  live_workers :: nat

definition ControllerMapper_init :: "bool \<Rightarrow> bool \<Rightarrow> ControllerMapper" where
  "ControllerMapper_init dbg tm =
     \<lparr>debug = dbg, test_mode = tm, nx = Nxbt_init, controller_idx = None,
      button_mappings = map_of
        [(''BTN_SOUTH'', Buttons_B), (''BTN_EAST'', Buttons_A),
         (''BTN_NORTH'', Buttons_X), (''BTN_WEST'', Buttons_Y),
         (''BTN_TL'', Buttons_L), (''BTN_TR'', Buttons_R),
         (''BTN_TL2'', Buttons_ZL), (''BTN_TR2'', Buttons_ZR),
         (''BTN_START'', Buttons_PLUS), (''BTN_SELECT'', Buttons_MINUS),
         (''BTN_MODE'', Buttons_HOME)],
      stick_mappings = map_of
        [(''ABS_X'', (L_STICK, ''x'')), (''ABS_Y'', (L_STICK, ''y'')),
         (''ABS_RX'', (R_STICK, ''x'')), (''ABS_RY'', (R_STICK, ''y''))],
      trigger_mappings = map_of
        [(''ABS_Z'', Buttons_ZL), (''ABS_RZ'', Buttons_ZR)],
      current_input = create_input_packet,
      running = False, input_thread = None,
      logger = [], stdout = [], slept_ms = 0, live_workers = 0\<rparr>"

section \<open>Translating one event\<close>

text \<open>
  \<open>int(x)\<close> of a Python float truncates towards zero. The quotient
  \<open>(event.state / d) * 100\<close> is taken exactly: the rounding of the two double-precision
  operations is not modelled.
\<close>

definition py_int :: "real \<Rightarrow> int" where
  "py_int x = (if 0 \<le> x then \<lfloor>x\<rfloor> else \<lceil>x\<rceil>)"

definition logger_debug :: "log_entry \<Rightarrow> ControllerMapper \<Rightarrow> ControllerMapper" where
  "logger_debug e self = self\<lparr>logger := logger self @ [e]\<rparr>"

definition logger_error :: "log_entry \<Rightarrow> ControllerMapper \<Rightarrow> ControllerMapper" where
  "logger_error e self = self\<lparr>logger := logger self @ [e]\<rparr>"

text \<open>\<open>self.nx.set_controller_input(self.controller_idx, self.current_input)\<close>; the
  exception, if the endpoint raises one, leaves through the caller.\<close>

definition nx_set_controller_input :: "ControllerMapper \<Rightarrow> exn option \<times> ControllerMapper" where
  "nx_set_controller_input self =
     (case set_controller_input (controller_idx self) (current_input self) (nx self) of
        (r, n) \<Rightarrow> (r, self\<lparr>nx := n\<rparr>))"

definition process_gamepad_event ::
  "event \<Rightarrow> ControllerMapper \<Rightarrow> exn option \<times> ControllerMapper" where
  "process_gamepad_event event self =
     (if test_mode self then
        (None, self\<lparr>stdout := stdout self @
                        [Print_Event (ev_type event) (code event) (state event)]\<rparr>)
      else if ev_type event = ''Key'' then
        (case button_mappings self (code event) of
           Some nxbt_button \<Rightarrow>
             let s1 = self\<lparr>current_input :=
                        set_button nxbt_button (state event = 1) (current_input self)\<rparr>;
                 s2 = (if debug s1
                       then logger_debug
                              (Debug_Button (code event) nxbt_button (state event = 1)) s1
                       else s1)
             in nx_set_controller_input s2
         | None \<Rightarrow> (None, self))
      else if ev_type event = ''Absolute'' then
        (case trigger_mappings self (code event) of
           Some button \<Rightarrow>
             let value = py_int ((of_int (state event) / 255) * 100);
                 s1 = self\<lparr>current_input :=
                        set_button button (value > 50) (current_input self)\<rparr>;
                 s2 = (if debug s1
                       then logger_debug (Debug_Trigger (code event) button (value > 50)) s1
                       else s1)
             in nx_set_controller_input s2
         | None \<Rightarrow>
             if code event = ''ABS_HAT0X'' then
               let s1 = self\<lparr>current_input :=
                          set_button Buttons_DPAD_LEFT (state event = - 1)
                            (current_input self)\<rparr>;
                   s2 = s1\<lparr>current_input :=
                          set_button Buttons_DPAD_RIGHT (state event = 1)
                            (current_input s1)\<rparr>
               in (None,
                   if debug s2
                   then logger_debug (Debug_Dpad_X (state event = - 1) (state event = 1)) s2
                   else s2)
             else if code event = ''ABS_HAT0Y'' then
               let s1 = self\<lparr>current_input :=
                          set_button Buttons_DPAD_UP (state event = - 1)
                            (current_input self)\<rparr>;
                   s2 = s1\<lparr>current_input :=
                          set_button Buttons_DPAD_DOWN (state event = 1)
                            (current_input s1)\<rparr>
               in (None,
                   if debug s2
                   then logger_debug (Debug_Dpad_Y (state event = - 1) (state event = 1)) s2
                   else s2)
             else
               (case stick_mappings self (code event) of
                  Some (stick_name, axis) \<Rightarrow>
                    let value = py_int ((of_int (state event) / 32767) * 100);
                        value = (if axis = ''y'' then - value else value);
                        s1 = (if axis = ''x''
                              then self\<lparr>current_input :=
                                     set_x_value stick_name value (current_input self)\<rparr>
                              else self\<lparr>current_input :=
                                     set_y_value stick_name value (current_input self)\<rparr>);
                        s2 = (if debug s1
                              then logger_debug
                                     (Debug_Stick (code event) stick_name axis value) s1
                              else s1)
                    in nx_set_controller_input s2
                | None \<Rightarrow> (None, self)))
      else (None, self))"

section \<open>The input loop\<close>

text \<open>\<open>for event in events: self._process_gamepad_event(event)\<close>: the first exception
  ends the iteration; the events after it are not processed.\<close>

fun process_events ::
  "event list \<Rightarrow> ControllerMapper \<Rightarrow> exn option \<times> ControllerMapper" where
  "process_events [] self = (None, self)"
| "process_events (event # events) self =
     (case process_gamepad_event event self of
        (Some e, s) \<Rightarrow> (Some e, s)
      | (None, s) \<Rightarrow> process_events events s)"

text \<open>The handler of the loop body: \<open>self.logger.error(...)\<close>, then \<open>time.sleep(0.1)\<close>.\<close>

definition handle_exception :: "exn \<Rightarrow> ControllerMapper \<Rightarrow> ControllerMapper" where
  "handle_exception e self =
     (let s = logger_error (Error_Processing_Input e) self
      in s\<lparr>slept_ms := slept_ms s + 100\<rparr>)"

text \<open>One pass through the body of \<open>while self.running\<close>. What \<open>inputs.get_gamepad()\<close>
  does is given from outside: it raises (\<open>Inl\<close>) or yields events (\<open>Inr\<close>).\<close>

definition input_cycle :: "exn + event list \<Rightarrow> ControllerMapper \<Rightarrow> ControllerMapper" where
  "input_cycle pull self =
     (case pull of
        Inl e \<Rightarrow> handle_exception e self
      | Inr events \<Rightarrow>
          (case process_events events self of
             (None, s) \<Rightarrow> s
           | (Some e, s) \<Rightarrow> handle_exception e s))"

text \<open>\<open>_input_loop\<close> over a script of device pulls; the worker leaves the loop when it
  finds \<open>running\<close> false, and the script ending stands for a pull that blocks.\<close>

fun input_loop :: "(exn + event list) list \<Rightarrow> ControllerMapper \<Rightarrow> ControllerMapper" where
  "input_loop [] self = self"
| "input_loop (pull # pulls) self =
     (if running self then input_loop pulls (input_cycle pull self) else self)"

section \<open>Starting and stopping the worker\<close>

definition start_input_processing :: "ControllerMapper \<Rightarrow> ControllerMapper" where
  "start_input_processing self =
     (if input_thread self \<noteq> None then self
      else
        let s1 = self\<lparr>running := True\<rparr>;
            s2 = s1\<lparr>input_thread := Some \<lparr>daemon = False, started = False\<rparr>\<rparr>;
            s3 = s2\<lparr>input_thread := map_option (\<lambda>t. t\<lparr>daemon := True\<rparr>) (input_thread s2)\<rparr>
        in s3\<lparr>input_thread := map_option (\<lambda>t. t\<lparr>started := True\<rparr>) (input_thread s3),
               live_workers := live_workers s3 + 1\<rparr>)"

text \<open>\<open>join\<close> returns once the worker has seen \<open>running\<close> false and left its loop.\<close>

definition stop_input_processing :: "ControllerMapper \<Rightarrow> ControllerMapper" where
  "stop_input_processing self =
     (let s1 = self\<lparr>running := False\<rparr>
      in if input_thread s1 \<noteq> None
         then s1\<lparr>live_workers := live_workers s1 - 1, input_thread := None\<rparr>
         else s1)"

definition cleanup :: "ControllerMapper \<Rightarrow> ControllerMapper" where
  "cleanup self =
     (let s1 = stop_input_processing self
      in case controller_idx s1 of
           Some idx \<Rightarrow> s1\<lparr>nx := remove_controller idx (nx s1)\<rparr>
         | None \<Rightarrow> s1)"

text \<open>A sequence of calls made by the control context on one mapper.\<close>

datatype call = Start | Stop

fun run_calls :: "call list \<Rightarrow> ControllerMapper \<Rightarrow> ControllerMapper" where
  "run_calls [] self = self"
| "run_calls (Start # cs) self = run_calls cs (start_input_processing self)"
| "run_calls (Stop # cs) self = run_calls cs (stop_input_processing self)"

section \<open>Connecting\<close>

text \<open>
  The \<open>while True\<close> poll of \<open>connect_controller\<close>. The endpoint changes its state on its
  own, so what the \<open>k\<close>-th poll reads is given as \<open>reports k\<close>; each
  \<open>await asyncio.sleep(0.1)\<close> moves on to the next poll. The loop has no bound: where the
  endpoint never reports \<open>connected\<close> or \<open>crashed\<close> the result is \<open>None\<close>.
\<close>

partial_function (option) wait_for_connection ::
  "(nat \<Rightarrow> report) \<Rightarrow> nat \<Rightarrow> (exn + unit) option" where
  "wait_for_connection reports k =
     (if lifecycle (reports k) = ''connected'' then Some (Inr ())
      else if lifecycle (reports k) = ''crashed''
      then Some (Inl (ConnectionError (errors (reports k))))
      else wait_for_connection reports (Suc k))"

text \<open>Modelled from the spec: \<open>create_controller\<close> of the endpoint, the spec's
  \<open>create_session(controller_kind) -> session_id\<close>; the index it hands out is given
  from outside.\<close>

definition create_controller :: "int \<Rightarrow> int \<Rightarrow> Nxbt \<Rightarrow> int \<times> Nxbt" where
  "create_controller session_id controller_type n =
     (session_id, n\<lparr>created := created n @ [controller_type]\<rparr>)"

definition connect_controller ::
  "int \<Rightarrow> (nat \<Rightarrow> report) \<Rightarrow> int \<Rightarrow> ControllerMapper \<Rightarrow>
   ((exn + int) \<times> ControllerMapper) option" where
  "connect_controller session_id reports controller_type self =
     (if \<not> test_mode self then
        (case create_controller session_id controller_type (nx self) of
           (idx, n) \<Rightarrow>
             let s1 = self\<lparr>nx := n, controller_idx := Some idx\<rparr>
             in (case wait_for_connection reports 0 of
                   None \<Rightarrow> None
                 | Some (Inl e) \<Rightarrow> Some (Inl e, s1)
                 | Some (Inr _) \<Rightarrow> Some (Inr idx, s1)))
      else Some (Inr 0, self))"

text \<open>The start of \<open>main\<close>: connect unless in test mode, then start the input loop. An
  exception of \<open>connect_controller\<close> skips the rest of the \<open>try\<close> block and runs
  \<open>cleanup\<close> in the \<open>finally\<close> clause.\<close>

definition main_startup ::
  "int \<Rightarrow> (nat \<Rightarrow> report) \<Rightarrow> int \<Rightarrow> ControllerMapper \<Rightarrow>
   (exn option \<times> ControllerMapper) option" where
  "main_startup session_id reports controller_type mapper =
     (if \<not> test_mode mapper then
        (case connect_controller session_id reports controller_type mapper of
           None \<Rightarrow> None
         | Some (Inl e, s) \<Rightarrow> Some (Some e, cleanup s)
         | Some (Inr _, s) \<Rightarrow> Some (None, start_input_processing s))
      else Some (None, start_input_processing mapper))"

section \<open>The normalisation rules as the specification words them\<close>

text \<open>The specification's trigger rule, \<open>round(value * 100 / 255) > 50\<close>, and its axis
  rule, \<open>round(value * 100 / 32767)\<close> clamped to \<open>[-100, 100]\<close> and negated for the
  \<open>y\<close> axis. They are stated here to be compared with what \<open>process_gamepad_event\<close>
  computes.\<close>

definition spec_trigger_pressed :: "int \<Rightarrow> bool" where
  "spec_trigger_pressed v = (round (of_int v * 100 / 255 :: real) > 50)"

definition spec_axis_value :: "string \<Rightarrow> int \<Rightarrow> int" where
  "spec_axis_value axis v =
     (let n = max (- 100) (min 100 (round (of_int v * 100 / 32767 :: real)))
      in if axis = ''y'' then - n else n)"

text \<open>The events that reach one of the three calls of \<open>set_controller_input\<close>: a key in
  the button map, an absolute event in the trigger map, and an absolute event in the stick
  map that is neither a trigger nor a hat axis.\<close>

definition pushing_event :: "ControllerMapper \<Rightarrow> event \<Rightarrow> bool" where
  "pushing_event self event =
     (ev_type event = ''Key'' \<and> button_mappings self (code event) \<noteq> None
      \<or> ev_type event = ''Absolute'' \<and>
         (trigger_mappings self (code event) \<noteq> None
          \<or> code event \<noteq> ''ABS_HAT0X'' \<and> code event \<noteq> ''ABS_HAT0Y''
            \<and> stick_mappings self (code event) \<noteq> None))"

text \<open>The events that reach one of the hat branches.\<close>

definition hat_event :: "ControllerMapper \<Rightarrow> event \<Rightarrow> bool" where
  "hat_event self event =
     (ev_type event = ''Absolute'' \<and> trigger_mappings self (code event) = None
      \<and> (code event = ''ABS_HAT0X'' \<or> code event = ''ABS_HAT0Y''))"

text \<open>Opposite d-pad directions are not pressed together.\<close>

definition dpad_exclusive :: "ControllerMapper \<Rightarrow> bool" where
  "dpad_exclusive s =
     (\<not> (buttons (current_input s) Buttons_DPAD_LEFT
         \<and> buttons (current_input s) Buttons_DPAD_RIGHT)
      \<and> \<not> (buttons (current_input s) Buttons_DPAD_UP
           \<and> buttons (current_input s) Buttons_DPAD_DOWN))"

section \<open>One event, branch by branch\<close>

lemma process_test_mode:
  "test_mode self \<Longrightarrow> process_gamepad_event event self =
     (None, self\<lparr>stdout := stdout self @
                        [Print_Event (ev_type event) (code event) (state event)]\<rparr>)"
  by (simp add: process_gamepad_event_def)

lemma process_key_mapped:
  "\<not> test_mode self \<Longrightarrow> ev_type event = ''Key'' \<Longrightarrow>
   button_mappings self (code event) = Some b \<Longrightarrow>
   process_gamepad_event event self =
     nx_set_controller_input
       ((if debug self
         then logger_debug (Debug_Button (code event) b (state event = 1)) else id)
        (self\<lparr>current_input := set_button b (state event = 1) (current_input self)\<rparr>))"
  by (simp add: process_gamepad_event_def Let_def)

lemma process_key_unmapped:
  "\<not> test_mode self \<Longrightarrow> ev_type event = ''Key'' \<Longrightarrow>
   button_mappings self (code event) = None \<Longrightarrow>
   process_gamepad_event event self = (None, self)"
  by (simp add: process_gamepad_event_def)

lemma process_other_kind:
  "\<not> test_mode self \<Longrightarrow> ev_type event \<noteq> ''Key'' \<Longrightarrow> ev_type event \<noteq> ''Absolute'' \<Longrightarrow>
   process_gamepad_event event self = (None, self)"
  by (simp add: process_gamepad_event_def)

lemma process_trigger:
  "\<not> test_mode self \<Longrightarrow> ev_type event = ''Absolute'' \<Longrightarrow>
   trigger_mappings self (code event) = Some b \<Longrightarrow>
   process_gamepad_event event self =
     nx_set_controller_input
       ((if debug self
         then logger_debug (Debug_Trigger (code event) b
                (py_int ((of_int (state event) / 255) * 100) > 50)) else id)
        (self\<lparr>current_input :=
           set_button b (py_int ((of_int (state event) / 255) * 100) > 50)
             (current_input self)\<rparr>))"
  by (simp add: process_gamepad_event_def Let_def)

lemma process_hat_x:
  "\<not> test_mode self \<Longrightarrow> ev_type event = ''Absolute'' \<Longrightarrow>
   trigger_mappings self (code event) = None \<Longrightarrow> code event = ''ABS_HAT0X'' \<Longrightarrow>
   process_gamepad_event event self =
     (None,
      (if debug self
       then logger_debug (Debug_Dpad_X (state event = - 1) (state event = 1)) else id)
      (self\<lparr>current_input :=
         set_button Buttons_DPAD_RIGHT (state event = 1)
           (set_button Buttons_DPAD_LEFT (state event = - 1) (current_input self))\<rparr>))"
  unfolding process_gamepad_event_def by (simp add: Let_def)

lemma process_hat_y:
  "\<not> test_mode self \<Longrightarrow> ev_type event = ''Absolute'' \<Longrightarrow>
   trigger_mappings self (code event) = None \<Longrightarrow> code event = ''ABS_HAT0Y'' \<Longrightarrow>
   process_gamepad_event event self =
     (None,
      (if debug self
       then logger_debug (Debug_Dpad_Y (state event = - 1) (state event = 1)) else id)
      (self\<lparr>current_input :=
         set_button Buttons_DPAD_DOWN (state event = 1)
           (set_button Buttons_DPAD_UP (state event = - 1) (current_input self))\<rparr>))"
  unfolding process_gamepad_event_def by (simp add: Let_def)

lemma process_stick:
  "\<not> test_mode self \<Longrightarrow> ev_type event = ''Absolute'' \<Longrightarrow>
   trigger_mappings self (code event) = None \<Longrightarrow>
   code event \<noteq> ''ABS_HAT0X'' \<Longrightarrow> code event \<noteq> ''ABS_HAT0Y'' \<Longrightarrow>
   stick_mappings self (code event) = Some (sn, axis) \<Longrightarrow>
   process_gamepad_event event self =
     nx_set_controller_input
       ((if debug self
         then logger_debug (Debug_Stick (code event) sn axis
                (if axis = ''y'' then - py_int ((of_int (state event) / 32767) * 100)
                 else py_int ((of_int (state event) / 32767) * 100))) else id)
        (self\<lparr>current_input :=
           (if axis = ''x'' then set_x_value sn else set_y_value sn)
             (if axis = ''y'' then - py_int ((of_int (state event) / 32767) * 100)
              else py_int ((of_int (state event) / 32767) * 100))
             (current_input self)\<rparr>))"
  by (simp add: process_gamepad_event_def Let_def)

lemma process_absolute_unmapped:
  "\<not> test_mode self \<Longrightarrow> ev_type event = ''Absolute'' \<Longrightarrow>
   trigger_mappings self (code event) = None \<Longrightarrow>
   code event \<noteq> ''ABS_HAT0X'' \<Longrightarrow> code event \<noteq> ''ABS_HAT0Y'' \<Longrightarrow>
   stick_mappings self (code event) = None \<Longrightarrow>
   process_gamepad_event event self = (None, self)"
  by (simp add: process_gamepad_event_def)

lemma snd_nx_set_controller_input:
  "snd (nx_set_controller_input s) =
     s\<lparr>nx := (nx s)\<lparr>input_calls := input_calls (nx s) @ [(controller_idx s, current_input s)]\<rparr>\<rparr>"
  by (simp add: nx_set_controller_input_def set_controller_input_def)

lemma fst_nx_set_controller_input:
  "fst (nx_set_controller_input s) =
     (if push_fails (nx s) then Some (PushFailure ''push rejected'') else None)"
  by (simp add: nx_set_controller_input_def set_controller_input_def)

lemma process_cases:
  obtains
    (test) "test_mode self"
  | (key_mapped) b where "\<not> test_mode self" "ev_type event = ''Key''"
      "button_mappings self (code event) = Some b"
  | (key_unmapped) "\<not> test_mode self" "ev_type event = ''Key''"
      "button_mappings self (code event) = None"
  | (trigger) b where "\<not> test_mode self" "ev_type event = ''Absolute''"
      "trigger_mappings self (code event) = Some b"
  | (hat_x) "\<not> test_mode self" "ev_type event = ''Absolute''"
      "trigger_mappings self (code event) = None" "code event = ''ABS_HAT0X''"
  | (hat_y) "\<not> test_mode self" "ev_type event = ''Absolute''"
      "trigger_mappings self (code event) = None" "code event = ''ABS_HAT0Y''"
  | (stick) sn axis where "\<not> test_mode self" "ev_type event = ''Absolute''"
      "trigger_mappings self (code event) = None"
      "code event \<noteq> ''ABS_HAT0X''" "code event \<noteq> ''ABS_HAT0Y''"
      "stick_mappings self (code event) = Some (sn, axis)"
  | (abs_unmapped) "\<not> test_mode self" "ev_type event = ''Absolute''"
      "trigger_mappings self (code event) = None"
      "code event \<noteq> ''ABS_HAT0X''" "code event \<noteq> ''ABS_HAT0Y''"
      "stick_mappings self (code event) = None"
  | (other) "\<not> test_mode self" "ev_type event \<noteq> ''Key''" "ev_type event \<noteq> ''Absolute''"
proof (cases "test_mode self")
  case True
  then show ?thesis by (rule test)
next
  case nt: False
  show ?thesis
  proof (cases "ev_type event = ''Key''")
    case True
    then show ?thesis
      using nt key_mapped key_unmapped by (cases "button_mappings self (code event)") blast+
  next
    case nk: False
    show ?thesis
    proof (cases "ev_type event = ''Absolute''")
      case False
      then show ?thesis using nt nk other by blast
    next
      case ab: True
      show ?thesis
      proof (cases "trigger_mappings self (code event)")
        case (Some b)
        then show ?thesis using nt ab trigger by blast
      next
        case None
        show ?thesis
        proof (cases "code event = ''ABS_HAT0X''")
          case True
          then show ?thesis using nt ab None hat_x by blast
        next
          case nx: False
          show ?thesis
          proof (cases "code event = ''ABS_HAT0Y''")
            case True
            then show ?thesis using nt ab None hat_y by blast
          next
            case ny: False
            show ?thesis
            proof (cases "stick_mappings self (code event)")
              case None': None
              then show ?thesis using nt ab None nx ny abs_unmapped by blast
            next
              case (Some p)
              then obtain sn axis where "stick_mappings self (code event) = Some (sn, axis)"
                by (cases p) simp
              then show ?thesis using nt ab None nx ny stick by blast
            qed
          qed
        qed
      qed
    qed
  qed
qed

lemma process_keeps:
  "test_mode (snd (process_gamepad_event e s)) = test_mode s
   \<and> debug (snd (process_gamepad_event e s)) = debug s
   \<and> button_mappings (snd (process_gamepad_event e s)) = button_mappings s
   \<and> trigger_mappings (snd (process_gamepad_event e s)) = trigger_mappings s
   \<and> stick_mappings (snd (process_gamepad_event e s)) = stick_mappings s
   \<and> running (snd (process_gamepad_event e s)) = running s
   \<and> input_thread (snd (process_gamepad_event e s)) = input_thread s
   \<and> live_workers (snd (process_gamepad_event e s)) = live_workers s
   \<and> controller_idx (snd (process_gamepad_event e s)) = controller_idx s
   \<and> push_fails (nx (snd (process_gamepad_event e s))) = push_fails (nx s)"
proof (cases rule: process_cases [where self = s and event = e])
  case test
  then show ?thesis by (simp add: process_test_mode)
next
  case (key_mapped b)
  then show ?thesis
    by (simp add: process_key_mapped snd_nx_set_controller_input logger_debug_def)
next
  case key_unmapped
  then show ?thesis by (simp add: process_key_unmapped)
next
  case (trigger b)
  then show ?thesis
    by (simp add: process_trigger snd_nx_set_controller_input logger_debug_def)
next
  case hat_x
  then show ?thesis by (simp add: process_hat_x logger_debug_def)
next
  case hat_y
  then show ?thesis by (simp add: process_hat_y logger_debug_def)
next
  case (stick sn axis)
  then show ?thesis
    by (simp add: process_stick snd_nx_set_controller_input logger_debug_def)
next
  case abs_unmapped
  then show ?thesis by (simp add: process_absolute_unmapped)
next
  case other
  then show ?thesis by (simp add: process_other_kind)
qed

section \<open>The mapper as \<open>__init__\<close> leaves it\<close>

lemma init_fields:
  "test_mode (ControllerMapper_init d t) = t"
  "debug (ControllerMapper_init d t) = d"
  "current_input (ControllerMapper_init d t) = create_input_packet"
  "controller_idx (ControllerMapper_init d t) = None"
  "nx (ControllerMapper_init d t) = Nxbt_init"
  "running (ControllerMapper_init d t) = False"
  "input_thread (ControllerMapper_init d t) = None"
  "live_workers (ControllerMapper_init d t) = 0"
  "logger (ControllerMapper_init d t) = []"
  "slept_ms (ControllerMapper_init d t) = 0"
  by (simp_all add: ControllerMapper_init_def)

lemma init_button_mappings:
  "button_mappings (ControllerMapper_init d t) ''BTN_EAST'' = Some Buttons_A"
  "button_mappings (ControllerMapper_init d t) ''BTN_SOUTH'' = Some Buttons_B"
  "button_mappings (ControllerMapper_init d t) ''ABS_MISC'' = None"
  "button_mappings (ControllerMapper_init d t) ''ABS_Z'' = None"
  "button_mappings (ControllerMapper_init d t) ''ABS_X'' = None"
  "button_mappings (ControllerMapper_init d t) ''ABS_Y'' = None"
  by (simp_all add: ControllerMapper_init_def)

lemma init_trigger_mappings:
  "trigger_mappings (ControllerMapper_init d t) ''ABS_Z'' = Some Buttons_ZL"
  "trigger_mappings (ControllerMapper_init d t) ''ABS_HAT0X'' = None"
  "trigger_mappings (ControllerMapper_init d t) ''ABS_HAT0Y'' = None"
  "trigger_mappings (ControllerMapper_init d t) ''ABS_X'' = None"
  "trigger_mappings (ControllerMapper_init d t) ''ABS_Y'' = None"
  "trigger_mappings (ControllerMapper_init d t) ''ABS_MISC'' = None"
  "trigger_mappings (ControllerMapper_init d t) ''BTN_SOUTH'' = None"
  by (simp_all add: ControllerMapper_init_def)

lemma init_stick_mappings:
  "stick_mappings (ControllerMapper_init d t) ''ABS_X'' = Some (L_STICK, ''x'')"
  "stick_mappings (ControllerMapper_init d t) ''ABS_Y'' = Some (L_STICK, ''y'')"
  "stick_mappings (ControllerMapper_init d t) ''ABS_MISC'' = None"
  "stick_mappings (ControllerMapper_init d t) ''BTN_SOUTH'' = None"
  by (simp_all add: ControllerMapper_init_def)

section \<open>Button events\<close>

text \<open>
  Claim C7. Outside test mode, a \<open>Key\<close> event whose code is in the button map sets the
  mapped button to \<open>state == 1\<close> and changes no other field of the Snapshot: every other
  button and both sticks stay as they were.
\<close>

theorem button_event_frame:
  assumes "\<not> test_mode self" and "ev_type event = ''Key''"
    and "button_mappings self (code event) = Some b"
  shows "buttons (current_input (snd (process_gamepad_event event self))) b = (state event = 1)
       \<and> (\<forall>b'. b' \<noteq> b \<longrightarrow>
            buttons (current_input (snd (process_gamepad_event event self))) b' =
            buttons (current_input self) b')
       \<and> sticks (current_input (snd (process_gamepad_event event self))) =
           sticks (current_input self)"
  by (simp add: process_key_mapped [OF assms] snd_nx_set_controller_input
      logger_debug_def set_button_def)

theorem button_event_frame_witness:
  "\<not> test_mode (ControllerMapper_init False False)
   \<and> button_mappings (ControllerMapper_init False False) ''BTN_EAST'' = Some Buttons_A
   \<and> buttons (current_input (snd (process_gamepad_event
        \<lparr>ev_type = ''Key'', code = ''BTN_EAST'', state = 1\<rparr>
        (ControllerMapper_init False False)))) Buttons_A
   \<and> \<not> buttons (current_input (snd (process_gamepad_event
        \<lparr>ev_type = ''Key'', code = ''BTN_EAST'', state = 1\<rparr>
        (ControllerMapper_init False False)))) Buttons_B
   \<and> sticks (current_input (snd (process_gamepad_event
        \<lparr>ev_type = ''Key'', code = ''BTN_EAST'', state = 1\<rparr>
        (ControllerMapper_init False False)))) = sticks create_input_packet"
  using button_event_frame [of "ControllerMapper_init False False"
      "\<lparr>ev_type = ''Key'', code = ''BTN_EAST'', state = 1\<rparr>" Buttons_A]
  by (simp add: init_fields init_button_mappings create_input_packet_def)

section \<open>Events outside every table\<close>

text \<open>
  Claim C8. An event whose code is in none of the button, trigger and stick maps and is
  neither hat axis leaves the Snapshot unchanged, makes no call of
  \<open>set_controller_input\<close> and raises nothing; outside test mode the whole mapper is
  unchanged (in test mode the event is only printed).
\<close>

theorem unmapped_event_noop:
  assumes "button_mappings self (code event) = None"
    and "trigger_mappings self (code event) = None"
    and "stick_mappings self (code event) = None"
    and "code event \<noteq> ''ABS_HAT0X''" and "code event \<noteq> ''ABS_HAT0Y''"
  shows "current_input (snd (process_gamepad_event event self)) = current_input self
       \<and> input_calls (nx (snd (process_gamepad_event event self))) = input_calls (nx self)
       \<and> fst (process_gamepad_event event self) = None
       \<and> (\<not> test_mode self \<longrightarrow> snd (process_gamepad_event event self) = self)"
proof (cases "test_mode self")
  case True
  then show ?thesis by (simp add: process_test_mode)
next
  case False
  consider "ev_type event = ''Key''" | "ev_type event = ''Absolute''"
    | "ev_type event \<noteq> ''Key''" "ev_type event \<noteq> ''Absolute''" by blast
  then have "process_gamepad_event event self = (None, self)"
  proof cases
    case 1
    then show ?thesis using False assms by (simp add: process_key_unmapped)
  next
    case 2
    then show ?thesis using False assms by (simp add: process_absolute_unmapped)
  next
    case 3
    then show ?thesis using False by (simp add: process_other_kind)
  qed
  then show ?thesis by simp
qed

theorem unmapped_event_noop_witness:
  "button_mappings (ControllerMapper_init False False) ''ABS_MISC'' = None
   \<and> trigger_mappings (ControllerMapper_init False False) ''ABS_MISC'' = None
   \<and> stick_mappings (ControllerMapper_init False False) ''ABS_MISC'' = None
   \<and> ''ABS_MISC'' \<noteq> ''ABS_HAT0X'' \<and> ''ABS_MISC'' \<noteq> ''ABS_HAT0Y''
   \<and> \<not> test_mode (ControllerMapper_init False False)
   \<and> process_gamepad_event \<lparr>ev_type = ''Absolute'', code = ''ABS_MISC'', state = 7\<rparr>
        (ControllerMapper_init False False) = (None, ControllerMapper_init False False)"
  using unmapped_event_noop [of "ControllerMapper_init False False"
      "\<lparr>ev_type = ''Absolute'', code = ''ABS_MISC'', state = 7\<rparr>"]
  by (simp add: init_fields init_button_mappings init_trigger_mappings init_stick_mappings
      prod_eq_iff)

section \<open>The hat axes\<close>

lemma init_button_targets:
  "button_mappings (ControllerMapper_init d t) c = Some b \<Longrightarrow>
   b \<noteq> Buttons_DPAD_UP \<and> b \<noteq> Buttons_DPAD_DOWN
   \<and> b \<noteq> Buttons_DPAD_LEFT \<and> b \<noteq> Buttons_DPAD_RIGHT"
  by (auto simp: ControllerMapper_init_def split: if_splits)

lemma init_trigger_targets:
  "trigger_mappings (ControllerMapper_init d t) c = Some b \<Longrightarrow>
   b \<noteq> Buttons_DPAD_UP \<and> b \<noteq> Buttons_DPAD_DOWN
   \<and> b \<noteq> Buttons_DPAD_LEFT \<and> b \<noteq> Buttons_DPAD_RIGHT"
  by (auto simp: ControllerMapper_init_def split: if_splits)

text \<open>With the tables of \<open>__init__\<close> only the hat branches write the four d-pad buttons,
  so no event can make two opposite directions pressed together.\<close>

lemma dpad_exclusive_step:
  assumes bm: "button_mappings s = button_mappings (ControllerMapper_init d t)"
    and tm: "trigger_mappings s = trigger_mappings (ControllerMapper_init d t)"
    and ex: "dpad_exclusive s"
  shows "dpad_exclusive (snd (process_gamepad_event e s))"
proof (cases rule: process_cases [where self = s and event = e])
  case test
  then show ?thesis using ex by (simp add: process_test_mode dpad_exclusive_def)
next
  case (key_mapped b)
  from key_mapped(3) bm have "button_mappings (ControllerMapper_init d t) (code e) = Some b"
    by simp
  from init_button_targets [OF this] show ?thesis using ex key_mapped
    by (auto simp: process_key_mapped snd_nx_set_controller_input logger_debug_def
        set_button_def dpad_exclusive_def)
next
  case key_unmapped
  then show ?thesis using ex by (simp add: process_key_unmapped)
next
  case (trigger b)
  from trigger(3) tm have "trigger_mappings (ControllerMapper_init d t) (code e) = Some b"
    by simp
  from init_trigger_targets [OF this] show ?thesis using ex trigger
    by (auto simp: process_trigger snd_nx_set_controller_input logger_debug_def
        set_button_def dpad_exclusive_def)
next
  case hat_x
  then show ?thesis using ex
    by (simp add: process_hat_x logger_debug_def set_button_def dpad_exclusive_def)
next
  case hat_y
  then show ?thesis using ex
    by (simp add: process_hat_y logger_debug_def set_button_def dpad_exclusive_def)
next
  case (stick sn axis)
  then show ?thesis using ex
    by (simp add: process_stick snd_nx_set_controller_input logger_debug_def
        set_x_value_def set_y_value_def dpad_exclusive_def)
next
  case abs_unmapped
  then show ?thesis using ex by (simp add: process_absolute_unmapped)
next
  case other
  then show ?thesis using ex by (simp add: process_other_kind)
qed

lemma dpad_exclusive_events:
  "button_mappings s = button_mappings (ControllerMapper_init d t) \<Longrightarrow>
   trigger_mappings s = trigger_mappings (ControllerMapper_init d t) \<Longrightarrow>
   dpad_exclusive s \<Longrightarrow> dpad_exclusive (snd (process_events events s))"
proof (induction events arbitrary: s)
  case Nil
  then show ?case by simp
next
  case (Cons e es)
  obtain r s' where p: "process_gamepad_event e s = (r, s')"
    by (cases "process_gamepad_event e s")
  have k: "button_mappings s' = button_mappings (ControllerMapper_init d t)"
    "trigger_mappings s' = trigger_mappings (ControllerMapper_init d t)"
    using process_keeps [of e s] p Cons.prems by simp_all
  have x: "dpad_exclusive s'"
    using dpad_exclusive_step [OF Cons.prems, of e] p by simp
  show ?case
  proof (cases r)
    case None
    then show ?thesis using p Cons.IH [OF k x] by simp
  next
    case (Some a)
    then show ?thesis using p x by simp
  qed
qed

lemma dpad_exclusive_from_init:
  "dpad_exclusive (snd (process_events events (ControllerMapper_init d t)))"
  by (rule dpad_exclusive_events) (simp_all add: dpad_exclusive_def init_fields
      create_input_packet_def)

text \<open>
  Claim C4. Outside test mode, an \<open>Absolute\<close> event on \<open>ABS_HAT0X\<close> (which the trigger
  map does not claim first) sets \<open>DPAD_LEFT\<close> to \<open>state == -1\<close> and \<open>DPAD_RIGHT\<close> to
  \<open>state == 1\<close>, so the two are never both pressed after it; \<open>ABS_HAT0Y\<close> does the same
  for \<open>DPAD_UP\<close> and \<open>DPAD_DOWN\<close>. And after any sequence of events applied to a newly
  constructed mapper, neither pair is pressed together.
\<close>

theorem dpad_hat_buttons:
  assumes "\<not> test_mode self" and "ev_type event = ''Absolute''"
    and "trigger_mappings self (code event) = None"
  shows "(code event = ''ABS_HAT0X'' \<longrightarrow>
            buttons (current_input (snd (process_gamepad_event event self))) Buttons_DPAD_LEFT
              = (state event = - 1)
          \<and> buttons (current_input (snd (process_gamepad_event event self))) Buttons_DPAD_RIGHT
              = (state event = 1)
          \<and> \<not> (buttons (current_input (snd (process_gamepad_event event self))) Buttons_DPAD_LEFT
               \<and> buttons (current_input (snd (process_gamepad_event event self))) Buttons_DPAD_RIGHT))
       \<and> (code event = ''ABS_HAT0Y'' \<longrightarrow>
            buttons (current_input (snd (process_gamepad_event event self))) Buttons_DPAD_UP
              = (state event = - 1)
          \<and> buttons (current_input (snd (process_gamepad_event event self))) Buttons_DPAD_DOWN
              = (state event = 1)
          \<and> \<not> (buttons (current_input (snd (process_gamepad_event event self))) Buttons_DPAD_UP
               \<and> buttons (current_input (snd (process_gamepad_event event self))) Buttons_DPAD_DOWN))
       \<and> \<not> (buttons (current_input (snd (process_events events
                 (ControllerMapper_init dbg tm)))) Buttons_DPAD_LEFT
            \<and> buttons (current_input (snd (process_events events
                 (ControllerMapper_init dbg tm)))) Buttons_DPAD_RIGHT)
       \<and> \<not> (buttons (current_input (snd (process_events events
                 (ControllerMapper_init dbg tm)))) Buttons_DPAD_UP
            \<and> buttons (current_input (snd (process_events events
                 (ControllerMapper_init dbg tm)))) Buttons_DPAD_DOWN)"
proof (intro conjI impI)
  assume x: "code event = ''ABS_HAT0X''"
  note p = process_hat_x [OF assms x]
  show "buttons (current_input (snd (process_gamepad_event event self))) Buttons_DPAD_LEFT
              = (state event = - 1)"
    by (simp add: p logger_debug_def set_button_def)
  show "buttons (current_input (snd (process_gamepad_event event self))) Buttons_DPAD_RIGHT
              = (state event = 1)"
    by (simp add: p logger_debug_def set_button_def)
  show "\<not> (buttons (current_input (snd (process_gamepad_event event self))) Buttons_DPAD_LEFT
               \<and> buttons (current_input (snd (process_gamepad_event event self))) Buttons_DPAD_RIGHT)"
    by (simp add: p logger_debug_def set_button_def)
next
  assume y: "code event = ''ABS_HAT0Y''"
  note p = process_hat_y [OF assms y]
  show "buttons (current_input (snd (process_gamepad_event event self))) Buttons_DPAD_UP
              = (state event = - 1)"
    by (simp add: p logger_debug_def set_button_def)
  show "buttons (current_input (snd (process_gamepad_event event self))) Buttons_DPAD_DOWN
              = (state event = 1)"
    by (simp add: p logger_debug_def set_button_def)
  show "\<not> (buttons (current_input (snd (process_gamepad_event event self))) Buttons_DPAD_UP
               \<and> buttons (current_input (snd (process_gamepad_event event self))) Buttons_DPAD_DOWN)"
    by (simp add: p logger_debug_def set_button_def)
next
  note i = dpad_exclusive_from_init [of events dbg tm, unfolded dpad_exclusive_def]
  show "\<not> (buttons (current_input (snd (process_events events
                 (ControllerMapper_init dbg tm)))) Buttons_DPAD_LEFT
            \<and> buttons (current_input (snd (process_events events
                 (ControllerMapper_init dbg tm)))) Buttons_DPAD_RIGHT)"
    using i by blast
  show "\<not> (buttons (current_input (snd (process_events events
                 (ControllerMapper_init dbg tm)))) Buttons_DPAD_UP
            \<and> buttons (current_input (snd (process_events events
                 (ControllerMapper_init dbg tm)))) Buttons_DPAD_DOWN)"
    using i by blast
qed

theorem dpad_hat_buttons_witness:
  "\<not> test_mode (ControllerMapper_init False False)
   \<and> trigger_mappings (ControllerMapper_init False False) ''ABS_HAT0X'' = None
   \<and> trigger_mappings (ControllerMapper_init False False) ''ABS_HAT0Y'' = None
   \<and> buttons (current_input (snd (process_gamepad_event
        \<lparr>ev_type = ''Absolute'', code = ''ABS_HAT0X'', state = - 1\<rparr>
        (ControllerMapper_init False False)))) Buttons_DPAD_LEFT
   \<and> \<not> buttons (current_input (snd (process_gamepad_event
        \<lparr>ev_type = ''Absolute'', code = ''ABS_HAT0X'', state = - 1\<rparr>
        (ControllerMapper_init False False)))) Buttons_DPAD_RIGHT
   \<and> \<not> buttons (current_input (snd (process_gamepad_event
        \<lparr>ev_type = ''Absolute'', code = ''ABS_HAT0Y'', state = 1\<rparr>
        (ControllerMapper_init False False)))) Buttons_DPAD_UP
   \<and> buttons (current_input (snd (process_gamepad_event
        \<lparr>ev_type = ''Absolute'', code = ''ABS_HAT0Y'', state = 1\<rparr>
        (ControllerMapper_init False False)))) Buttons_DPAD_DOWN"
  using dpad_hat_buttons [of "ControllerMapper_init False False"
      "\<lparr>ev_type = ''Absolute'', code = ''ABS_HAT0X'', state = - 1\<rparr>"]
    dpad_hat_buttons [of "ControllerMapper_init False False"
      "\<lparr>ev_type = ''Absolute'', code = ''ABS_HAT0Y'', state = 1\<rparr>"]
  by (simp add: init_fields init_trigger_mappings)

section \<open>Applying an event twice\<close>

text \<open>
  Claim C9. Applying the same event twice in a row gives the same Snapshot as applying it
  once: every assignment overwrites.
\<close>

theorem process_event_idempotent:
  "current_input (snd (process_gamepad_event event (snd (process_gamepad_event event self))))
   = current_input (snd (process_gamepad_event event self))"
proof -
  let ?s = "snd (process_gamepad_event event self)"
  note k = process_keeps [of event self]
  show ?thesis
  proof (cases rule: process_cases [where self = self and event = event])
    case test
    then have "test_mode ?s" using k by simp
    then show ?thesis using test by (simp add: process_test_mode)
  next
    case (key_mapped b)
    then have "\<not> test_mode ?s" "button_mappings ?s (code event) = Some b" using k by simp_all
    from process_key_mapped [OF this(1) key_mapped(2) this(2)]
    show ?thesis
      by (simp add: process_key_mapped [OF key_mapped] snd_nx_set_controller_input
          logger_debug_def set_button_def)
  next
    case key_unmapped
    then show ?thesis by (simp add: process_key_unmapped)
  next
    case (trigger b)
    then have "\<not> test_mode ?s" "trigger_mappings ?s (code event) = Some b" using k by simp_all
    from process_trigger [OF this(1) trigger(2) this(2)]
    show ?thesis
      by (simp add: process_trigger [OF trigger] snd_nx_set_controller_input
          logger_debug_def set_button_def)
  next
    case hat_x
    then have "\<not> test_mode ?s" "trigger_mappings ?s (code event) = None" using k by simp_all
    from process_hat_x [OF this(1) hat_x(2) this(2) hat_x(4)]
    show ?thesis
      by (simp add: process_hat_x [OF hat_x] logger_debug_def set_button_def)
  next
    case hat_y
    then have "\<not> test_mode ?s" "trigger_mappings ?s (code event) = None" using k by simp_all
    from process_hat_y [OF this(1) hat_y(2) this(2) hat_y(4)]
    show ?thesis
      by (simp add: process_hat_y [OF hat_y] logger_debug_def set_button_def)
  next
    case (stick sn axis)
    then have "\<not> test_mode ?s" "trigger_mappings ?s (code event) = None"
      "stick_mappings ?s (code event) = Some (sn, axis)" using k by simp_all
    from process_stick [OF this(1) stick(2) this(2) stick(4) stick(5) this(3)]
    show ?thesis
      by (simp add: process_stick [OF stick] snd_nx_set_controller_input
          logger_debug_def set_x_value_def set_y_value_def)
  next
    case abs_unmapped
    then show ?thesis by (simp add: process_absolute_unmapped)
  next
    case other
    then show ?thesis by (simp add: process_other_kind)
  qed
qed
theorem process_event_idempotent_witness:
  "X_VALUE (sticks (current_input (snd (process_gamepad_event
      \<lparr>ev_type = ''Absolute'', code = ''ABS_X'', state = 16384\<rparr>
      (snd (process_gamepad_event
         \<lparr>ev_type = ''Absolute'', code = ''ABS_X'', state = 16384\<rparr>
         (ControllerMapper_init False False)))))) L_STICK) = 50"
proof -
  have "X_VALUE (sticks (current_input (snd (process_gamepad_event
      \<lparr>ev_type = ''Absolute'', code = ''ABS_X'', state = 16384\<rparr>
      (ControllerMapper_init False False)))) L_STICK) = 50"
    by (simp add: process_stick [where sn = L_STICK and axis = "''x''"]
        init_fields init_trigger_mappings init_stick_mappings
        snd_nx_set_controller_input set_x_value_def create_input_packet_def py_int_def)
  then show ?thesis
    using process_event_idempotent [of "\<lparr>ev_type = ''Absolute'', code = ''ABS_X'', state = 16384\<rparr>"
        "ControllerMapper_init False False"]
    by simp
qed

section \<open>Scaling of triggers and sticks\<close>

text \<open>\<open>int((v / d) * 100)\<close> for an integer \<open>v\<close> and a positive integer \<open>d\<close> is the
  quotient \<open>v * 100 / d\<close> truncated towards zero.\<close>

lemma py_int_quot:
  assumes "0 < d"
  shows "py_int ((of_int v / of_int d) * 100) =
         (if 0 \<le> v then (v * 100) div d else - ((- v * 100) div d))"
proof -
  have e: "(of_int v / of_int d) * (100::real) = of_int (v * 100) / of_int d" by simp
  show ?thesis
  proof (cases "0 \<le> v")
    case True
    then have "0 \<le> (of_int (v * 100) / of_int d :: real)" using assms by simp
    then have "py_int (of_int (v * 100) / of_int d) = (v * 100) div d"
      unfolding py_int_def by (simp only: if_True floor_divide_of_int_eq)
    then show ?thesis using True unfolding e by simp
  next
    case False
    then have "\<not> 0 \<le> (of_int (v * 100) / of_int d :: real)" using assms
      by (simp add: divide_less_0_iff not_le)
    moreover have "\<lceil>of_int (v * 100) / of_int d :: real\<rceil> = - ((- v * 100) div d)"
    proof -
      have "- (of_int (v * 100) / of_int d :: real) = of_int (- v * 100) / of_int d" by simp
      then show ?thesis unfolding ceiling_def by (simp only: floor_divide_of_int_eq)
    qed
    ultimately have "py_int (of_int (v * 100) / of_int d) = - ((- v * 100) div d)"
      unfolding py_int_def by (simp only: if_False)
    then show ?thesis using False unfolding e by simp
  qed
qed

lemma trigger_value:
  "py_int ((of_int v / 255) * 100) =
     (if 0 \<le> v then (v * 100) div 255 else - ((- v * 100) div 255))"
  using py_int_quot [of 255 v] by simp

lemma stick_value:
  "py_int ((of_int v / 32767) * 100) =
     (if 0 \<le> v then (v * 100) div 32767 else - ((- v * 100) div 32767))"
  using py_int_quot [of 32767 v] by simp

lemma trigger_pressed_iff: "(py_int ((of_int v / 255) * 100) > 50) = (131 \<le> v)"
  unfolding trigger_value by auto

lemma stick_value_bounds:
  "- 32768 \<le> v \<Longrightarrow> v \<le> 32767 \<Longrightarrow>
   - 100 \<le> py_int ((of_int v / 32767) * 100) \<and> py_int ((of_int v / 32767) * 100) \<le> 100"
  unfolding stick_value by auto

text \<open>
  Claim C2, as the specification states it, fails: the source truncates where the
  specification rounds. At native value 129 the scaled value is 50.59, which rounds to 51
  (pressed) and truncates to 50 (not pressed).
\<close>

theorem trigger_round_counterexample:
  "buttons (current_input (snd (process_gamepad_event
      \<lparr>ev_type = ''Absolute'', code = ''ABS_Z'', state = 129\<rparr>
      (ControllerMapper_init False False)))) Buttons_ZL
   \<noteq> spec_trigger_pressed 129"
proof -
  have "\<not> buttons (current_input (snd (process_gamepad_event
      \<lparr>ev_type = ''Absolute'', code = ''ABS_Z'', state = 129\<rparr>
      (ControllerMapper_init False False)))) Buttons_ZL"
    by (simp add: process_trigger [where b = Buttons_ZL] init_fields init_trigger_mappings
        snd_nx_set_controller_input set_button_def py_int_def)
  moreover have "spec_trigger_pressed 129"
    by (simp add: spec_trigger_pressed_def round_def)
  ultimately show ?thesis by simp
qed

text \<open>
  Claim C2, amended. Outside test mode, an \<open>Absolute\<close> event whose code is in the trigger
  map sets the mapped button to \<open>int(v * 100 / 255) > 50\<close> with \<open>int\<close> truncating: for
  \<open>v\<close> in \<open>0..255\<close> that is \<open>v * 100 div 255 > 50\<close>, which holds exactly from \<open>v = 131\<close>
  on. So 127 and 0 give not pressed and 255 gives pressed.
\<close>

theorem trigger_threshold_truncated:
  assumes "\<not> test_mode self" and "ev_type event = ''Absolute''"
    and "trigger_mappings self (code event) = Some b"
  shows "(0 \<le> state event \<and> state event \<le> 255 \<longrightarrow>
            buttons (current_input (snd (process_gamepad_event event self))) b
              = ((state event * 100) div 255 > 50))
       \<and> buttons (current_input (snd (process_gamepad_event event self))) b
           = (131 \<le> state event)
       \<and> (state event = 127 \<longrightarrow>
            \<not> buttons (current_input (snd (process_gamepad_event event self))) b)
       \<and> (state event = 255 \<longrightarrow>
            buttons (current_input (snd (process_gamepad_event event self))) b)
       \<and> (state event = 0 \<longrightarrow>
            \<not> buttons (current_input (snd (process_gamepad_event event self))) b)"
proof -
  have b: "buttons (current_input (snd (process_gamepad_event event self))) b
           = (py_int ((of_int (state event) / 255) * 100) > 50)"
    by (simp add: process_trigger [OF assms] snd_nx_set_controller_input
        logger_debug_def set_button_def)
  have "0 \<le> state event \<Longrightarrow> ((state event * 100) div 255 > 50) = (131 \<le> state event)"
    by auto
  then show ?thesis unfolding b trigger_pressed_iff by auto
qed

theorem trigger_threshold_truncated_witness:
  "\<not> test_mode (ControllerMapper_init False False)
   \<and> trigger_mappings (ControllerMapper_init False False) ''ABS_Z'' = Some Buttons_ZL
   \<and> (0::int) \<le> 131 \<and> (131::int) \<le> 255
   \<and> buttons (current_input (snd (process_gamepad_event
        \<lparr>ev_type = ''Absolute'', code = ''ABS_Z'', state = 131\<rparr>
        (ControllerMapper_init False False)))) Buttons_ZL
   \<and> \<not> buttons (current_input (snd (process_gamepad_event
        \<lparr>ev_type = ''Absolute'', code = ''ABS_Z'', state = 127\<rparr>
        (ControllerMapper_init False False)))) Buttons_ZL
   \<and> buttons (current_input (snd (process_gamepad_event
        \<lparr>ev_type = ''Absolute'', code = ''ABS_Z'', state = 255\<rparr>
        (ControllerMapper_init False False)))) Buttons_ZL
   \<and> \<not> buttons (current_input (snd (process_gamepad_event
        \<lparr>ev_type = ''Absolute'', code = ''ABS_Z'', state = 0\<rparr>
        (ControllerMapper_init False False)))) Buttons_ZL"
  using trigger_threshold_truncated [of "ControllerMapper_init False False"
      "\<lparr>ev_type = ''Absolute'', code = ''ABS_Z'', state = 131\<rparr>" Buttons_ZL]
    trigger_threshold_truncated [of "ControllerMapper_init False False"
      "\<lparr>ev_type = ''Absolute'', code = ''ABS_Z'', state = 127\<rparr>" Buttons_ZL]
    trigger_threshold_truncated [of "ControllerMapper_init False False"
      "\<lparr>ev_type = ''Absolute'', code = ''ABS_Z'', state = 255\<rparr>" Buttons_ZL]
    trigger_threshold_truncated [of "ControllerMapper_init False False"
      "\<lparr>ev_type = ''Absolute'', code = ''ABS_Z'', state = 0\<rparr>" Buttons_ZL]
  by (simp add: init_fields init_trigger_mappings)

text \<open>
  Claim C3, as the specification states it, fails for the same reason: at native value 200
  on \<open>ABS_X\<close> the scaled value is 0.61, which rounds to 1 and truncates to 0.
\<close>

theorem stick_round_counterexample:
  "X_VALUE (sticks (current_input (snd (process_gamepad_event
      \<lparr>ev_type = ''Absolute'', code = ''ABS_X'', state = 200\<rparr>
      (ControllerMapper_init False False)))) L_STICK)
   \<noteq> spec_axis_value ''x'' 200"
proof -
  have "X_VALUE (sticks (current_input (snd (process_gamepad_event
      \<lparr>ev_type = ''Absolute'', code = ''ABS_X'', state = 200\<rparr>
      (ControllerMapper_init False False)))) L_STICK) = 0"
    by (simp add: process_stick [where sn = L_STICK and axis = "''x''"]
        init_fields init_trigger_mappings init_stick_mappings
        snd_nx_set_controller_input set_x_value_def py_int_def)
  moreover have "spec_axis_value ''x'' 200 = 1"
    by (simp add: spec_axis_value_def round_def)
  ultimately show ?thesis by simp
qed

text \<open>
  Claim C3, amended. Outside test mode, an \<open>Absolute\<close> event that is not a trigger or a
  hat axis, whose code the stick map sends to \<open>(stick, axis)\<close> and whose native value
  \<open>v\<close> lies in the native range \<open>-32768..32767\<close>, sets that axis to
  \<open>int(v * 100 / 32767)\<close>, with \<open>int\<close> truncating towards zero, clamped to
  \<open>[-100, 100]\<close> and negated when the axis is \<open>y\<close>; \<open>v = 0\<close> gives 0. (On the native
  range the truncated value already lies in \<open>[-100, 100]\<close>.)
\<close>

theorem stick_axis_truncated:
  assumes "\<not> test_mode self" and "ev_type event = ''Absolute''"
    and "trigger_mappings self (code event) = None"
    and "code event \<noteq> ''ABS_HAT0X''" and "code event \<noteq> ''ABS_HAT0Y''"
    and "stick_mappings self (code event) = Some (sn, axis)"
    and "- 32768 \<le> state event" and "state event \<le> 32767"
  shows "(axis = ''x'' \<longrightarrow>
            X_VALUE (sticks (current_input (snd (process_gamepad_event event self))) sn)
              = max (- 100) (min 100
                  (if 0 \<le> state event then (state event * 100) div 32767
                   else - ((- state event * 100) div 32767))))
       \<and> (axis = ''y'' \<longrightarrow>
            Y_VALUE (sticks (current_input (snd (process_gamepad_event event self))) sn)
              = - max (- 100) (min 100
                    (if 0 \<le> state event then (state event * 100) div 32767
                     else - ((- state event * 100) div 32767))))
       \<and> (axis = ''x'' \<longrightarrow>
             - 100 \<le> X_VALUE (sticks (current_input
                                (snd (process_gamepad_event event self))) sn)
             \<and> X_VALUE (sticks (current_input
                          (snd (process_gamepad_event event self))) sn) \<le> 100)
       \<and> (axis = ''y'' \<longrightarrow>
             - 100 \<le> Y_VALUE (sticks (current_input
                                (snd (process_gamepad_event event self))) sn)
             \<and> Y_VALUE (sticks (current_input
                          (snd (process_gamepad_event event self))) sn) \<le> 100)
       \<and> (state event = 0 \<longrightarrow>
            (axis = ''x'' \<longrightarrow>
               X_VALUE (sticks (current_input (snd (process_gamepad_event event self))) sn) = 0)
          \<and> (axis = ''y'' \<longrightarrow>
               Y_VALUE (sticks (current_input (snd (process_gamepad_event event self))) sn) = 0))"
proof -
  let ?t = "py_int ((of_int (state event) / 32767) * 100)"
  note st = assms(1-6)
  have x: "axis = ''x'' \<Longrightarrow>
      X_VALUE (sticks (current_input (snd (process_gamepad_event event self))) sn) = ?t"
    by (simp add: process_stick [OF st] snd_nx_set_controller_input
        logger_debug_def set_x_value_def)
  have y: "axis = ''y'' \<Longrightarrow>
      Y_VALUE (sticks (current_input (snd (process_gamepad_event event self))) sn) = - ?t"
    by (simp add: process_stick [OF st] snd_nx_set_controller_input
        logger_debug_def set_y_value_def)
  have z: "state event = 0 \<Longrightarrow> ?t = 0" by (simp add: py_int_def)
  have b: "- 100 \<le> ?t \<and> ?t \<le> 100"
    using stick_value_bounds [OF assms(7,8)] .
  then have c: "max (- 100) (min 100 ?t) = ?t" by simp
  have v: "?t = (if 0 \<le> state event then (state event * 100) div 32767
                   else - ((- state event * 100) div 32767))"
    by (rule stick_value)
  show ?thesis
    using x y z b c unfolding v by (intro conjI impI) simp_all
qed

theorem stick_axis_truncated_witness:
  "\<not> test_mode (ControllerMapper_init False False)
   \<and> trigger_mappings (ControllerMapper_init False False) ''ABS_Y'' = None
   \<and> ''ABS_Y'' \<noteq> ''ABS_HAT0X'' \<and> ''ABS_Y'' \<noteq> ''ABS_HAT0Y''
   \<and> stick_mappings (ControllerMapper_init False False) ''ABS_Y'' = Some (L_STICK, ''y'')
   \<and> trigger_mappings (ControllerMapper_init False False) ''ABS_X'' = None
   \<and> ''ABS_X'' \<noteq> ''ABS_HAT0X'' \<and> ''ABS_X'' \<noteq> ''ABS_HAT0Y''
   \<and> stick_mappings (ControllerMapper_init False False) ''ABS_X'' = Some (L_STICK, ''x'')
   \<and> - 32768 \<le> (- 32768 :: int) \<and> (- 32768 :: int) \<le> 32767
   \<and> Y_VALUE (sticks (current_input (snd (process_gamepad_event
        \<lparr>ev_type = ''Absolute'', code = ''ABS_Y'', state = - 32768\<rparr>
        (ControllerMapper_init False False)))) L_STICK) = 100
   \<and> X_VALUE (sticks (current_input (snd (process_gamepad_event
        \<lparr>ev_type = ''Absolute'', code = ''ABS_X'', state = 16384\<rparr>
        (ControllerMapper_init False False)))) L_STICK) = 50
   \<and> X_VALUE (sticks (current_input (snd (process_gamepad_event
        \<lparr>ev_type = ''Absolute'', code = ''ABS_X'', state = 0\<rparr>
        (ControllerMapper_init False False)))) L_STICK) = 0"
  using stick_axis_truncated [of "ControllerMapper_init False False"
      "\<lparr>ev_type = ''Absolute'', code = ''ABS_Y'', state = - 32768\<rparr>" L_STICK "''y''"]
    stick_axis_truncated [of "ControllerMapper_init False False"
      "\<lparr>ev_type = ''Absolute'', code = ''ABS_X'', state = 16384\<rparr>" L_STICK "''x''"]
    stick_axis_truncated [of "ControllerMapper_init False False"
      "\<lparr>ev_type = ''Absolute'', code = ''ABS_X'', state = 0\<rparr>" L_STICK "''x''"]
  by (simp add: init_fields init_trigger_mappings init_stick_mappings)

section \<open>Calls of \<open>set_controller_input\<close>\<close>

lemma pushing_event_push:
  assumes "\<not> test_mode self" and "pushing_event self event"
  shows "input_calls (nx (snd (process_gamepad_event event self))) =
           input_calls (nx self) @
             [(controller_idx self, current_input (snd (process_gamepad_event event self)))]
       \<and> fst (process_gamepad_event event self) =
           (if push_fails (nx self) then Some (PushFailure ''push rejected'') else None)"
proof (cases rule: process_cases [where self = self and event = event])
  case test
  then show ?thesis using assms by simp
next
  case (key_mapped b)
  then show ?thesis
    by (simp add: process_key_mapped snd_nx_set_controller_input fst_nx_set_controller_input
        logger_debug_def)
next
  case key_unmapped
  then show ?thesis using assms by (simp add: pushing_event_def)
next
  case (trigger b)
  then show ?thesis
    by (simp add: process_trigger snd_nx_set_controller_input fst_nx_set_controller_input
        logger_debug_def)
next
  case hat_x
  then show ?thesis using assms by (simp add: pushing_event_def)
next
  case hat_y
  then show ?thesis using assms by (simp add: pushing_event_def)
next
  case (stick sn axis)
  then show ?thesis
    by (simp add: process_stick snd_nx_set_controller_input fst_nx_set_controller_input
        logger_debug_def)
next
  case abs_unmapped
  then show ?thesis using assms by (simp add: pushing_event_def)
next
  case other
  then show ?thesis using assms by (simp add: pushing_event_def)
qed

lemma pushing_event_kept:
  "pushing_event (snd (process_gamepad_event e s)) = pushing_event s"
  using process_keeps [of e s] by (simp add: pushing_event_def fun_eq_iff)

lemma hat_event_kept:
  "hat_event (snd (process_gamepad_event e s)) = hat_event s"
  using process_keeps [of e s] by (simp add: hat_event_def fun_eq_iff)

lemma unrouted_event_noop:
  assumes "\<not> test_mode s" and "\<not> pushing_event s e" and "\<not> hat_event s e"
  shows "process_gamepad_event e s = (None, s)"
proof (cases rule: process_cases [where self = s and event = e])
  case key_unmapped
  then show ?thesis by (simp add: process_key_unmapped)
next
  case abs_unmapped
  then show ?thesis by (simp add: process_absolute_unmapped)
next
  case other
  then show ?thesis by (simp add: process_other_kind)
qed (use assms in \<open>simp_all add: pushing_event_def hat_event_def\<close>)

lemma process_events_pushes:
  "\<not> test_mode self \<Longrightarrow> \<not> push_fails (nx self) \<Longrightarrow>
   \<forall>e \<in> set events. \<not> hat_event self e \<Longrightarrow>
   length (input_calls (nx (snd (process_events events self)))) =
     length (input_calls (nx self)) + length (filter (pushing_event self) events)"
proof (induction events arbitrary: self)
  case Nil
  then show ?case by simp
next
  case (Cons e es)
  let ?s = "snd (process_gamepad_event e self)"
  have k: "\<not> test_mode ?s" "\<not> push_fails (nx ?s)"
    using process_keeps [of e self] Cons.prems by simp_all
  have h: "\<forall>e' \<in> set es. \<not> hat_event ?s e'"
    using Cons.prems(3) by (simp add: hat_event_kept)
  note ih = Cons.IH [OF k h, unfolded pushing_event_kept]
  show ?case
  proof (cases "pushing_event self e")
    case True
    note one = pushing_event_push [OF Cons.prems(1) True]
    have "fst (process_gamepad_event e self) = None" using one Cons.prems(2) by simp
    then have step: "process_events (e # es) self = process_events es ?s"
      by (cases "process_gamepad_event e self") simp
    show ?thesis unfolding step using ih one True by simp
  next
    case False
    from Cons.prems(3) have "\<not> hat_event self e" by simp
    from unrouted_event_noop [OF Cons.prems(1) False this]
    have n: "process_gamepad_event e self = (None, self)" .
    then have step: "process_events (e # es) self = process_events es ?s" by simp
    show ?thesis unfolding step using ih n False by simp
  qed
qed

lemma process_events_rejected:
  "\<not> test_mode self \<Longrightarrow> push_fails (nx self) \<Longrightarrow>
   \<forall>e \<in> set events. \<not> hat_event self e \<Longrightarrow>
   length (input_calls (nx (snd (process_events events self)))) =
     length (input_calls (nx self))
     + (if \<exists>e \<in> set events. pushing_event self e then 1 else 0)"
proof (induction events arbitrary: self)
  case Nil
  then show ?case by simp
next
  case (Cons e es)
  show ?case
  proof (cases "pushing_event self e")
    case True
    note one = pushing_event_push [OF Cons.prems(1) True]
    have "fst (process_gamepad_event e self) = Some (PushFailure ''push rejected'')"
      using one Cons.prems(2) by simp
    then have step: "process_events (e # es) self =
        (Some (PushFailure ''push rejected''), snd (process_gamepad_event e self))"
      by (cases "process_gamepad_event e self") simp
    show ?thesis unfolding step using one True by simp
  next
    case False
    from Cons.prems(3) have "\<not> hat_event self e" by simp
    from unrouted_event_noop [OF Cons.prems(1) False this]
    have n: "process_gamepad_event e self = (None, self)" .
    then have step: "process_events (e # es) self = process_events es self" by simp
    have "\<forall>e' \<in> set es. \<not> hat_event self e'" using Cons.prems(3) by simp
    from Cons.IH [OF Cons.prems(1,2) this] show ?thesis unfolding step using False by simp
  qed
qed

text \<open>A hat event writes the Snapshot and returns without reaching any call of
  \<open>set_controller_input\<close>: the call after the stick branch belongs to that branch.\<close>

lemma dpad_event_makes_no_push:
  "buttons (current_input (snd (process_gamepad_event
      \<lparr>ev_type = ''Absolute'', code = ''ABS_HAT0X'', state = - 1\<rparr>
      (ControllerMapper_init False False)))) Buttons_DPAD_LEFT
   \<and> \<not> buttons (current_input (ControllerMapper_init False False)) Buttons_DPAD_LEFT
   \<and> input_calls (nx (snd (process_gamepad_event
      \<lparr>ev_type = ''Absolute'', code = ''ABS_HAT0X'', state = - 1\<rparr>
      (ControllerMapper_init False False)))) = []"
  by (simp add: process_hat_x init_fields init_trigger_mappings set_button_def
      create_input_packet_def Nxbt_init_def)

text \<open>
  Claim C1, as the specification states it, fails: the source has no dirty check. Releasing
  a button that is already released changes no field of the Snapshot and still makes one
  call of \<open>set_controller_input\<close>.
\<close>

theorem push_without_change_counterexample:
  "current_input (snd (process_gamepad_event
      \<lparr>ev_type = ''Key'', code = ''BTN_SOUTH'', state = 0\<rparr>
      (ControllerMapper_init False False)))
     = current_input (ControllerMapper_init False False)
   \<and> input_calls (nx (ControllerMapper_init False False)) = []
   \<and> length (input_calls (nx (snd (process_gamepad_event
      \<lparr>ev_type = ''Key'', code = ''BTN_SOUTH'', state = 0\<rparr>
      (ControllerMapper_init False False))))) = 1"
  by (simp add: process_key_mapped [where b = Buttons_B] init_fields init_button_mappings
      snd_nx_set_controller_input set_button_def create_input_packet_def Nxbt_init_def
      fun_eq_iff)

text \<open>
  Claim C1, amended. Outside test mode every event is applied to the Snapshot by direct
  assignment: a key in the button map overwrites its button with \<open>state == 1\<close>, a trigger
  its button with the truncated threshold test, a hat axis its two d-pad buttons, a stick
  axis (native range) its one axis value, and nothing else changes; an event in no table
  changes nothing. Every event routed through the button map, the trigger map or the stick
  map makes exactly one call of \<open>set_controller_input\<close>, carrying the session index and
  the Snapshot as just updated, whether or not a field changed; an event in no table makes
  no call. Over a batch of events none of which is a hat event the calls made are as many
  as the routed events of the batch, one each and none batched, while the endpoint accepts
  them; if it rejects them, the first routed event makes the only call, since its
  exception abandons the rest of the batch.
\<close>

theorem push_per_mapped_event:
  assumes "\<not> test_mode self"
  shows "(ev_type event = ''Key'' \<and> button_mappings self (code event) = Some b \<longrightarrow>
            buttons (current_input (snd (process_gamepad_event event self))) =
              (buttons (current_input self))(b := (state event = 1))
          \<and> sticks (current_input (snd (process_gamepad_event event self))) =
              sticks (current_input self))
       \<and> (ev_type event = ''Absolute'' \<and> trigger_mappings self (code event) = Some b \<longrightarrow>
            buttons (current_input (snd (process_gamepad_event event self))) =
              (buttons (current_input self))(b := (131 \<le> state event))
          \<and> sticks (current_input (snd (process_gamepad_event event self))) =
              sticks (current_input self))
       \<and> (ev_type event = ''Absolute'' \<and> trigger_mappings self (code event) = None
          \<and> code event = ''ABS_HAT0X'' \<longrightarrow>
            buttons (current_input (snd (process_gamepad_event event self))) =
              (buttons (current_input self))
                (Buttons_DPAD_LEFT := (state event = - 1),
                 Buttons_DPAD_RIGHT := (state event = 1))
          \<and> sticks (current_input (snd (process_gamepad_event event self))) =
              sticks (current_input self))
       \<and> (ev_type event = ''Absolute'' \<and> trigger_mappings self (code event) = None
          \<and> code event = ''ABS_HAT0Y'' \<longrightarrow>
            buttons (current_input (snd (process_gamepad_event event self))) =
              (buttons (current_input self))
                (Buttons_DPAD_UP := (state event = - 1),
                 Buttons_DPAD_DOWN := (state event = 1))
          \<and> sticks (current_input (snd (process_gamepad_event event self))) =
              sticks (current_input self))
       \<and> (ev_type event = ''Absolute'' \<and> trigger_mappings self (code event) = None
          \<and> code event \<noteq> ''ABS_HAT0X'' \<and> code event \<noteq> ''ABS_HAT0Y''
          \<and> stick_mappings self (code event) = Some (sn, axis)
          \<and> - 32768 \<le> state event \<and> state event \<le> 32767 \<longrightarrow>
            buttons (current_input (snd (process_gamepad_event event self))) =
              buttons (current_input self)
          \<and> sticks (current_input (snd (process_gamepad_event event self))) =
              (sticks (current_input self))
                (sn := (if axis = ''x''
                        then (sticks (current_input self) sn)
                               \<lparr>X_VALUE :=
                                  (if 0 \<le> state event then (state event * 100) div 32767
                                   else - ((- state event * 100) div 32767))\<rparr>
                        else (sticks (current_input self) sn)
                               \<lparr>Y_VALUE :=
                                  (if axis = ''y''
                                   then - (if 0 \<le> state event
                                           then (state event * 100) div 32767
                                           else - ((- state event * 100) div 32767))
                                   else (if 0 \<le> state event
                                         then (state event * 100) div 32767
                                         else - ((- state event * 100) div 32767)))\<rparr>)))
       \<and> (pushing_event self event \<longrightarrow>
            input_calls (nx (snd (process_gamepad_event event self))) =
              input_calls (nx self) @
                [(controller_idx self,
                  current_input (snd (process_gamepad_event event self)))])
       \<and> (button_mappings self (code event) = None
          \<and> trigger_mappings self (code event) = None
          \<and> stick_mappings self (code event) = None
          \<and> code event \<noteq> ''ABS_HAT0X'' \<and> code event \<noteq> ''ABS_HAT0Y'' \<longrightarrow>
            input_calls (nx (snd (process_gamepad_event event self))) = input_calls (nx self)
          \<and> current_input (snd (process_gamepad_event event self)) = current_input self)
       \<and> (\<not> push_fails (nx self) \<and> (\<forall>e \<in> set events. \<not> hat_event self e) \<longrightarrow>
            length (input_calls (nx (snd (process_events events self)))) =
              length (input_calls (nx self)) + length (filter (pushing_event self) events))
       \<and> (push_fails (nx self) \<and> (\<forall>e \<in> set events. \<not> hat_event self e) \<longrightarrow>
            length (input_calls (nx (snd (process_events events self)))) =
              length (input_calls (nx self))
              + (if \<exists>e \<in> set events. pushing_event self e then 1 else 0))"
proof (intro conjI)
  show "ev_type event = ''Key'' \<and> button_mappings self (code event) = Some b \<longrightarrow>
            buttons (current_input (snd (process_gamepad_event event self))) =
              (buttons (current_input self))(b := (state event = 1))
          \<and> sticks (current_input (snd (process_gamepad_event event self))) =
              sticks (current_input self)"
    using assms
    by (simp add: process_key_mapped snd_nx_set_controller_input logger_debug_def
        set_button_def)
  show "ev_type event = ''Absolute'' \<and> trigger_mappings self (code event) = Some b \<longrightarrow>
            buttons (current_input (snd (process_gamepad_event event self))) =
              (buttons (current_input self))(b := (131 \<le> state event))
          \<and> sticks (current_input (snd (process_gamepad_event event self))) =
              sticks (current_input self)"
  proof
    assume "ev_type event = ''Absolute'' \<and> trigger_mappings self (code event) = Some b"
    then have t: "ev_type event = ''Absolute''" "trigger_mappings self (code event) = Some b"
      by simp_all
    show "buttons (current_input (snd (process_gamepad_event event self))) =
              (buttons (current_input self))(b := (131 \<le> state event))
          \<and> sticks (current_input (snd (process_gamepad_event event self))) =
              sticks (current_input self)"
      unfolding process_trigger [OF assms t] trigger_pressed_iff
      by (simp add: snd_nx_set_controller_input logger_debug_def set_button_def)
  qed
  show "ev_type event = ''Absolute'' \<and> trigger_mappings self (code event) = None
          \<and> code event = ''ABS_HAT0X'' \<longrightarrow>
            buttons (current_input (snd (process_gamepad_event event self))) =
              (buttons (current_input self))
                (Buttons_DPAD_LEFT := (state event = - 1),
                 Buttons_DPAD_RIGHT := (state event = 1))
          \<and> sticks (current_input (snd (process_gamepad_event event self))) =
              sticks (current_input self)"
  proof
    assume "ev_type event = ''Absolute'' \<and> trigger_mappings self (code event) = None
          \<and> code event = ''ABS_HAT0X''"
    then have t: "ev_type event = ''Absolute''" "trigger_mappings self (code event) = None"
      "code event = ''ABS_HAT0X''"
      by blast+
    show "buttons (current_input (snd (process_gamepad_event event self))) =
              (buttons (current_input self))
                (Buttons_DPAD_LEFT := (state event = - 1),
                 Buttons_DPAD_RIGHT := (state event = 1))
          \<and> sticks (current_input (snd (process_gamepad_event event self))) =
              sticks (current_input self)"
      unfolding process_hat_x [OF assms t]
      by (simp add: logger_debug_def set_button_def)
  qed
  show "ev_type event = ''Absolute'' \<and> trigger_mappings self (code event) = None
          \<and> code event = ''ABS_HAT0Y'' \<longrightarrow>
            buttons (current_input (snd (process_gamepad_event event self))) =
              (buttons (current_input self))
                (Buttons_DPAD_UP := (state event = - 1),
                 Buttons_DPAD_DOWN := (state event = 1))
          \<and> sticks (current_input (snd (process_gamepad_event event self))) =
              sticks (current_input self)"
  proof
    assume "ev_type event = ''Absolute'' \<and> trigger_mappings self (code event) = None
          \<and> code event = ''ABS_HAT0Y''"
    then have t: "ev_type event = ''Absolute''" "trigger_mappings self (code event) = None"
      "code event = ''ABS_HAT0Y''"
      by blast+
    show "buttons (current_input (snd (process_gamepad_event event self))) =
              (buttons (current_input self))
                (Buttons_DPAD_UP := (state event = - 1),
                 Buttons_DPAD_DOWN := (state event = 1))
          \<and> sticks (current_input (snd (process_gamepad_event event self))) =
              sticks (current_input self)"
      unfolding process_hat_y [OF assms t]
      by (simp add: logger_debug_def set_button_def)
  qed
  show "ev_type event = ''Absolute'' \<and> trigger_mappings self (code event) = None
          \<and> code event \<noteq> ''ABS_HAT0X'' \<and> code event \<noteq> ''ABS_HAT0Y''
          \<and> stick_mappings self (code event) = Some (sn, axis)
          \<and> - 32768 \<le> state event \<and> state event \<le> 32767 \<longrightarrow>
            buttons (current_input (snd (process_gamepad_event event self))) =
              buttons (current_input self)
          \<and> sticks (current_input (snd (process_gamepad_event event self))) =
              (sticks (current_input self))
                (sn := (if axis = ''x''
                        then (sticks (current_input self) sn)
                               \<lparr>X_VALUE :=
                                  (if 0 \<le> state event then (state event * 100) div 32767
                                   else - ((- state event * 100) div 32767))\<rparr>
                        else (sticks (current_input self) sn)
                               \<lparr>Y_VALUE :=
                                  (if axis = ''y''
                                   then - (if 0 \<le> state event
                                           then (state event * 100) div 32767
                                           else - ((- state event * 100) div 32767))
                                   else (if 0 \<le> state event
                                         then (state event * 100) div 32767
                                         else - ((- state event * 100) div 32767)))\<rparr>))"
  proof
    assume a: "ev_type event = ''Absolute'' \<and> trigger_mappings self (code event) = None
          \<and> code event \<noteq> ''ABS_HAT0X'' \<and> code event \<noteq> ''ABS_HAT0Y''
          \<and> stick_mappings self (code event) = Some (sn, axis)
          \<and> - 32768 \<le> state event \<and> state event \<le> 32767"
    then have t: "ev_type event = ''Absolute''" "trigger_mappings self (code event) = None"
      "code event \<noteq> ''ABS_HAT0X''" "code event \<noteq> ''ABS_HAT0Y''"
      "stick_mappings self (code event) = Some (sn, axis)"
      by simp_all
    show "buttons (current_input (snd (process_gamepad_event event self))) =
              buttons (current_input self)
          \<and> sticks (current_input (snd (process_gamepad_event event self))) =
              (sticks (current_input self))
                (sn := (if axis = ''x''
                        then (sticks (current_input self) sn)
                               \<lparr>X_VALUE :=
                                  (if 0 \<le> state event then (state event * 100) div 32767
                                   else - ((- state event * 100) div 32767))\<rparr>
                        else (sticks (current_input self) sn)
                               \<lparr>Y_VALUE :=
                                  (if axis = ''y''
                                   then - (if 0 \<le> state event
                                           then (state event * 100) div 32767
                                           else - ((- state event * 100) div 32767))
                                   else (if 0 \<le> state event
                                         then (state event * 100) div 32767
                                         else - ((- state event * 100) div 32767)))\<rparr>))"
      unfolding process_stick [OF assms t] stick_value
      by (simp add: snd_nx_set_controller_input logger_debug_def set_x_value_def
          set_y_value_def)
  qed
  show "pushing_event self event \<longrightarrow>
            input_calls (nx (snd (process_gamepad_event event self))) =
              input_calls (nx self) @
                [(controller_idx self,
                  current_input (snd (process_gamepad_event event self)))]"
    using pushing_event_push [OF assms] by simp
  show "button_mappings self (code event) = None
          \<and> trigger_mappings self (code event) = None
          \<and> stick_mappings self (code event) = None
          \<and> code event \<noteq> ''ABS_HAT0X'' \<and> code event \<noteq> ''ABS_HAT0Y'' \<longrightarrow>
            input_calls (nx (snd (process_gamepad_event event self))) = input_calls (nx self)
          \<and> current_input (snd (process_gamepad_event event self)) = current_input self"
  proof
    assume "button_mappings self (code event) = None
          \<and> trigger_mappings self (code event) = None
          \<and> stick_mappings self (code event) = None
          \<and> code event \<noteq> ''ABS_HAT0X'' \<and> code event \<noteq> ''ABS_HAT0Y''"
    then have "\<not> pushing_event self event" "\<not> hat_event self event"
      by (simp_all add: pushing_event_def hat_event_def)
    from unrouted_event_noop [OF assms this]
    show "input_calls (nx (snd (process_gamepad_event event self))) = input_calls (nx self)
          \<and> current_input (snd (process_gamepad_event event self)) = current_input self"
      by simp
  qed
  show "\<not> push_fails (nx self) \<and> (\<forall>e \<in> set events. \<not> hat_event self e) \<longrightarrow>
            length (input_calls (nx (snd (process_events events self)))) =
              length (input_calls (nx self)) + length (filter (pushing_event self) events)"
    using process_events_pushes [OF assms] by blast
  show "push_fails (nx self) \<and> (\<forall>e \<in> set events. \<not> hat_event self e) \<longrightarrow>
            length (input_calls (nx (snd (process_events events self)))) =
              length (input_calls (nx self))
              + (if \<exists>e \<in> set events. pushing_event self e then 1 else 0)"
    using process_events_rejected [OF assms] by blast
qed

theorem push_per_mapped_event_witness:
  "\<not> test_mode (ControllerMapper_init False False)
   \<and> buttons (current_input (snd (process_gamepad_event
        \<lparr>ev_type = ''Key'', code = ''BTN_SOUTH'', state = 1\<rparr>
        (ControllerMapper_init False False)))) Buttons_B
   \<and> input_calls (nx (snd (process_gamepad_event
        \<lparr>ev_type = ''Key'', code = ''BTN_SOUTH'', state = 1\<rparr>
        (ControllerMapper_init False False)))) =
       [(None, current_input (snd (process_gamepad_event
          \<lparr>ev_type = ''Key'', code = ''BTN_SOUTH'', state = 1\<rparr>
          (ControllerMapper_init False False))))]
   \<and> buttons (current_input (snd (process_gamepad_event
        \<lparr>ev_type = ''Absolute'', code = ''ABS_Z'', state = 200\<rparr>
        (ControllerMapper_init False False)))) Buttons_ZL
   \<and> buttons (current_input (snd (process_gamepad_event
        \<lparr>ev_type = ''Absolute'', code = ''ABS_HAT0X'', state = - 1\<rparr>
        (ControllerMapper_init False False)))) Buttons_DPAD_LEFT
   \<and> \<not> buttons (current_input (snd (process_gamepad_event
        \<lparr>ev_type = ''Absolute'', code = ''ABS_HAT0X'', state = - 1\<rparr>
        (ControllerMapper_init False False)))) Buttons_DPAD_RIGHT
   \<and> buttons (current_input (snd (process_gamepad_event
        \<lparr>ev_type = ''Absolute'', code = ''ABS_HAT0Y'', state = 1\<rparr>
        (ControllerMapper_init False False)))) Buttons_DPAD_DOWN
   \<and> Y_VALUE (sticks (current_input (snd (process_gamepad_event
        \<lparr>ev_type = ''Absolute'', code = ''ABS_Y'', state = - 32768\<rparr>
        (ControllerMapper_init False False)))) L_STICK) = 100
   \<and> input_calls (nx (snd (process_gamepad_event
        \<lparr>ev_type = ''Absolute'', code = ''ABS_MISC'', state = 7\<rparr>
        (ControllerMapper_init False False)))) = []
   \<and> current_input (snd (process_gamepad_event
        \<lparr>ev_type = ''Absolute'', code = ''ABS_MISC'', state = 7\<rparr>
        (ControllerMapper_init False False))) = create_input_packet
   \<and> length (input_calls (nx (snd (process_events
        [\<lparr>ev_type = ''Key'', code = ''BTN_SOUTH'', state = 1\<rparr>,
         \<lparr>ev_type = ''Absolute'', code = ''ABS_MISC'', state = 7\<rparr>,
         \<lparr>ev_type = ''Absolute'', code = ''ABS_X'', state = 32767\<rparr>]
        (ControllerMapper_init False False))))) = 2
   \<and> length (input_calls (nx (snd (process_events
        [\<lparr>ev_type = ''Absolute'', code = ''ABS_MISC'', state = 7\<rparr>,
         \<lparr>ev_type = ''Key'', code = ''BTN_SOUTH'', state = 1\<rparr>,
         \<lparr>ev_type = ''Absolute'', code = ''ABS_X'', state = 32767\<rparr>]
        ((ControllerMapper_init False False)
           \<lparr>nx := Nxbt_init\<lparr>push_fails := True\<rparr>\<rparr>))))) = 1"
proof -
  note tables = pushing_event_def hat_event_def init_fields init_button_mappings
    init_trigger_mappings init_stick_mappings Nxbt_init_def
  have key: "buttons (current_input (snd (process_gamepad_event
        \<lparr>ev_type = ''Key'', code = ''BTN_SOUTH'', state = 1\<rparr>
        (ControllerMapper_init False False)))) Buttons_B
   \<and> input_calls (nx (snd (process_gamepad_event
        \<lparr>ev_type = ''Key'', code = ''BTN_SOUTH'', state = 1\<rparr>
        (ControllerMapper_init False False)))) =
       [(None, current_input (snd (process_gamepad_event
          \<lparr>ev_type = ''Key'', code = ''BTN_SOUTH'', state = 1\<rparr>
          (ControllerMapper_init False False))))]
   \<and> length (input_calls (nx (snd (process_events
        [\<lparr>ev_type = ''Key'', code = ''BTN_SOUTH'', state = 1\<rparr>,
         \<lparr>ev_type = ''Absolute'', code = ''ABS_MISC'', state = 7\<rparr>,
         \<lparr>ev_type = ''Absolute'', code = ''ABS_X'', state = 32767\<rparr>]
        (ControllerMapper_init False False))))) = 2"
    using push_per_mapped_event [where self = "ControllerMapper_init False False"
        and event = "\<lparr>ev_type = ''Key'', code = ''BTN_SOUTH'', state = 1\<rparr>"
        and b = Buttons_B and sn = L_STICK and axis = "''x''"
        and events = "[\<lparr>ev_type = ''Key'', code = ''BTN_SOUTH'', state = 1\<rparr>,
         \<lparr>ev_type = ''Absolute'', code = ''ABS_MISC'', state = 7\<rparr>,
         \<lparr>ev_type = ''Absolute'', code = ''ABS_X'', state = 32767\<rparr>]"]
    by (simp add: tables)
  have trigger: "buttons (current_input (snd (process_gamepad_event
        \<lparr>ev_type = ''Absolute'', code = ''ABS_Z'', state = 200\<rparr>
        (ControllerMapper_init False False)))) Buttons_ZL"
    using push_per_mapped_event [where self = "ControllerMapper_init False False"
        and event = "\<lparr>ev_type = ''Absolute'', code = ''ABS_Z'', state = 200\<rparr>"
        and b = Buttons_ZL and sn = L_STICK and axis = "''x''" and events = "[]"]
    by (simp add: tables)
  have hat_x: "buttons (current_input (snd (process_gamepad_event
        \<lparr>ev_type = ''Absolute'', code = ''ABS_HAT0X'', state = - 1\<rparr>
        (ControllerMapper_init False False)))) Buttons_DPAD_LEFT
   \<and> \<not> buttons (current_input (snd (process_gamepad_event
        \<lparr>ev_type = ''Absolute'', code = ''ABS_HAT0X'', state = - 1\<rparr>
        (ControllerMapper_init False False)))) Buttons_DPAD_RIGHT"
    using push_per_mapped_event [where self = "ControllerMapper_init False False"
        and event = "\<lparr>ev_type = ''Absolute'', code = ''ABS_HAT0X'', state = - 1\<rparr>"
        and b = Buttons_B and sn = L_STICK and axis = "''x''" and events = "[]"]
    by (simp add: tables)
  have hat_y: "buttons (current_input (snd (process_gamepad_event
        \<lparr>ev_type = ''Absolute'', code = ''ABS_HAT0Y'', state = 1\<rparr>
        (ControllerMapper_init False False)))) Buttons_DPAD_DOWN"
    using push_per_mapped_event [where self = "ControllerMapper_init False False"
        and event = "\<lparr>ev_type = ''Absolute'', code = ''ABS_HAT0Y'', state = 1\<rparr>"
        and b = Buttons_B and sn = L_STICK and axis = "''x''" and events = "[]"]
    by (simp add: tables)
  have stick: "Y_VALUE (sticks (current_input (snd (process_gamepad_event
        \<lparr>ev_type = ''Absolute'', code = ''ABS_Y'', state = - 32768\<rparr>
        (ControllerMapper_init False False)))) L_STICK) = 100"
    using push_per_mapped_event [where self = "ControllerMapper_init False False"
        and event = "\<lparr>ev_type = ''Absolute'', code = ''ABS_Y'', state = - 32768\<rparr>"
        and b = Buttons_B and sn = L_STICK and axis = "''y''" and events = "[]"]
    by (simp add: tables)
  have unmapped: "input_calls (nx (snd (process_gamepad_event
        \<lparr>ev_type = ''Absolute'', code = ''ABS_MISC'', state = 7\<rparr>
        (ControllerMapper_init False False)))) = []
   \<and> current_input (snd (process_gamepad_event
        \<lparr>ev_type = ''Absolute'', code = ''ABS_MISC'', state = 7\<rparr>
        (ControllerMapper_init False False))) = create_input_packet"
    using push_per_mapped_event [where self = "ControllerMapper_init False False"
        and event = "\<lparr>ev_type = ''Absolute'', code = ''ABS_MISC'', state = 7\<rparr>"
        and b = Buttons_B and sn = L_STICK and axis = "''x''" and events = "[]"]
    by (simp add: tables)
  have rejected: "length (input_calls (nx (snd (process_events
        [\<lparr>ev_type = ''Absolute'', code = ''ABS_MISC'', state = 7\<rparr>,
         \<lparr>ev_type = ''Key'', code = ''BTN_SOUTH'', state = 1\<rparr>,
         \<lparr>ev_type = ''Absolute'', code = ''ABS_X'', state = 32767\<rparr>]
        ((ControllerMapper_init False False)
           \<lparr>nx := Nxbt_init\<lparr>push_fails := True\<rparr>\<rparr>))))) = 1"
    using push_per_mapped_event [where self = "(ControllerMapper_init False False)
           \<lparr>nx := Nxbt_init\<lparr>push_fails := True\<rparr>\<rparr>"
        and event = "\<lparr>ev_type = ''Absolute'', code = ''ABS_MISC'', state = 7\<rparr>"
        and b = Buttons_B and sn = L_STICK and axis = "''x''"
        and events = "[\<lparr>ev_type = ''Absolute'', code = ''ABS_MISC'', state = 7\<rparr>,
         \<lparr>ev_type = ''Key'', code = ''BTN_SOUTH'', state = 1\<rparr>,
         \<lparr>ev_type = ''Absolute'', code = ''ABS_X'', state = 32767\<rparr>]"]
    by (simp add: tables)
  have "\<not> test_mode (ControllerMapper_init False False)" by (simp add: init_fields)
  with key trigger hat_x hat_y stick unmapped rejected show ?thesis by blast
qed

section \<open>Errors inside the input loop\<close>

lemma process_keeps_sleep:
  "slept_ms (snd (process_gamepad_event e s)) = slept_ms s"
proof (cases rule: process_cases [where self = s and event = e])
  case test
  then show ?thesis by (simp add: process_test_mode)
next
  case (key_mapped b)
  then show ?thesis
    by (simp add: process_key_mapped snd_nx_set_controller_input logger_debug_def)
next
  case key_unmapped
  then show ?thesis by (simp add: process_key_unmapped)
next
  case (trigger b)
  then show ?thesis
    by (simp add: process_trigger snd_nx_set_controller_input logger_debug_def)
next
  case hat_x
  then show ?thesis by (simp add: process_hat_x logger_debug_def)
next
  case hat_y
  then show ?thesis by (simp add: process_hat_y logger_debug_def)
next
  case (stick sn axis)
  then show ?thesis
    by (simp add: process_stick snd_nx_set_controller_input logger_debug_def)
next
  case abs_unmapped
  then show ?thesis by (simp add: process_absolute_unmapped)
next
  case other
  then show ?thesis by (simp add: process_other_kind)
qed

lemma process_events_keeps:
  "running (snd (process_events events s)) = running s
   \<and> slept_ms (snd (process_events events s)) = slept_ms s
   \<and> input_thread (snd (process_events events s)) = input_thread s
   \<and> live_workers (snd (process_events events s)) = live_workers s"
proof (induction events arbitrary: s)
  case Nil
  then show ?case by simp
next
  case (Cons e es)
  obtain r s' where p: "process_gamepad_event e s = (r, s')"
    by (cases "process_gamepad_event e s")
  have k: "running s' = running s" "slept_ms s' = slept_ms s"
    "input_thread s' = input_thread s" "live_workers s' = live_workers s"
    using process_keeps [of e s] process_keeps_sleep [of e s] p by simp_all
  show ?case
  proof (cases r)
    case None
    then show ?thesis using p k Cons.IH [of s'] by simp
  next
    case (Some x)
    then show ?thesis using p k by simp
  qed
qed

lemma handle_exception_fields:
  "logger (handle_exception e s) = logger s @ [Error_Processing_Input e]"
  "slept_ms (handle_exception e s) = slept_ms s + 100"
  "running (handle_exception e s) = running s"
  by (simp_all add: handle_exception_def logger_error_def Let_def)

lemma input_cycle_running: "running (input_cycle pull s) = running s"
proof (cases pull)
  case (Inl e)
  then show ?thesis by (simp add: input_cycle_def handle_exception_fields)
next
  case (Inr events)
  obtain r s' where p: "process_events events s = (r, s')"
    by (cases "process_events events s")
  then have "running s' = running s" using process_events_keeps [of events s] by simp
  then show ?thesis using Inr p
    by (cases r) (simp_all add: input_cycle_def handle_exception_fields)
qed

text \<open>No cycle clears \<open>running\<close>, so the loop runs every pull of the script in turn,
  whichever of them raised.\<close>

lemma input_loop_runs_every_cycle:
  "running s \<Longrightarrow> input_loop pulls s = fold input_cycle pulls s"
proof (induction pulls arbitrary: s)
  case Nil
  then show ?case by simp
next
  case (Cons p ps)
  then have "running (input_cycle p s)" by (simp add: input_cycle_running)
  from Cons.IH [OF this] show ?case using Cons.prems by simp
qed

lemma fold_input_cycle_running:
  "running (fold input_cycle pulls s) = running s"
  by (induction pulls arbitrary: s) (simp_all add: input_cycle_running)

text \<open>
  Claim C6. Whatever exception one cycle of the input loop raises, from the device pull or
  from applying an event (a rejected push included), the worker logs it, sleeps 100 ms
  and goes on: \<open>running\<close> is still true after the cycle, and every later pull of the
  script is run on the state that cycle left, so the events of the pull that follows a
  failing one are applied. No exception ends the loop.
\<close>

theorem input_cycle_error_continues:
  assumes "running self"
  shows "(pull = Inl e \<longrightarrow>
            logger (input_cycle pull self) = logger self @ [Error_Processing_Input e]
          \<and> slept_ms (input_cycle pull self) = slept_ms self + 100)
       \<and> (\<forall>events. pull = Inr events \<and> fst (process_events events self) = Some e \<longrightarrow>
            logger (input_cycle pull self) =
              logger (snd (process_events events self)) @ [Error_Processing_Input e]
          \<and> slept_ms (input_cycle pull self) = slept_ms self + 100)
       \<and> running (input_cycle pull self)
       \<and> input_loop (pull # pulls) self = fold input_cycle pulls (input_cycle pull self)
       \<and> running (input_loop (pull # pulls) self)
       \<and> (\<forall>later. fst (process_events later (input_cycle pull self)) = None \<longrightarrow>
            input_loop [pull, Inr later] self =
              snd (process_events later (input_cycle pull self)))"
proof (intro conjI impI allI)
  assume "pull = Inl e"
  then show "logger (input_cycle pull self) = logger self @ [Error_Processing_Input e]"
    and "slept_ms (input_cycle pull self) = slept_ms self + 100"
    by (simp_all add: input_cycle_def handle_exception_fields)
next
  fix events
  assume a: "pull = Inr events \<and> fst (process_events events self) = Some e"
  then have c: "input_cycle pull self = handle_exception e (snd (process_events events self))"
    by (cases "process_events events self") (simp add: input_cycle_def)
  show "logger (input_cycle pull self) =
          logger (snd (process_events events self)) @ [Error_Processing_Input e]"
    by (simp add: c handle_exception_fields)
  show "slept_ms (input_cycle pull self) = slept_ms self + 100"
    using process_events_keeps [of events self] by (simp add: c handle_exception_fields)
next
  show r: "running (input_cycle pull self)"
    using assms by (simp add: input_cycle_running)
  show l: "input_loop (pull # pulls) self = fold input_cycle pulls (input_cycle pull self)"
    using input_loop_runs_every_cycle [OF assms, of "pull # pulls"] by simp
  show "running (input_loop (pull # pulls) self)"
    unfolding l using r by (simp add: fold_input_cycle_running)
next
  fix later
  assume n: "fst (process_events later (input_cycle pull self)) = None"
  have "input_loop [pull, Inr later] self =
      input_cycle (Inr later) (input_cycle pull self)"
    using input_loop_runs_every_cycle [OF assms, of "[pull, Inr later]"] by simp
  also have "\<dots> = snd (process_events later (input_cycle pull self))"
    using n by (cases "process_events later (input_cycle pull self)")
      (simp add: input_cycle_def)
  finally show "input_loop [pull, Inr later] self =
      snd (process_events later (input_cycle pull self))" .
qed

theorem input_cycle_error_continues_witness:
  "running ((ControllerMapper_init False False)\<lparr>running := True\<rparr>)
   \<and> logger (input_cycle (Inl (TransientInputError ''No gamepad found.''))
        ((ControllerMapper_init False False)\<lparr>running := True\<rparr>))
       = [Error_Processing_Input (TransientInputError ''No gamepad found.'')]
   \<and> slept_ms (input_cycle (Inl (TransientInputError ''No gamepad found.''))
        ((ControllerMapper_init False False)\<lparr>running := True\<rparr>)) = 100
   \<and> running (input_loop
        [Inl (TransientInputError ''No gamepad found.''),
         Inr [\<lparr>ev_type = ''Key'', code = ''BTN_SOUTH'', state = 1\<rparr>]]
        ((ControllerMapper_init False False)\<lparr>running := True\<rparr>))
   \<and> buttons (current_input (input_loop
        [Inl (TransientInputError ''No gamepad found.''),
         Inr [\<lparr>ev_type = ''Key'', code = ''BTN_SOUTH'', state = 1\<rparr>]]
        ((ControllerMapper_init False False)\<lparr>running := True\<rparr>))) Buttons_B
   \<and> length (input_calls (nx (input_loop
        [Inl (TransientInputError ''No gamepad found.''),
         Inr [\<lparr>ev_type = ''Key'', code = ''BTN_SOUTH'', state = 1\<rparr>]]
        ((ControllerMapper_init False False)\<lparr>running := True\<rparr>)))) = 1
   \<and> logger (input_loop
        [Inl (TransientInputError ''No gamepad found.''),
         Inr [\<lparr>ev_type = ''Key'', code = ''BTN_SOUTH'', state = 1\<rparr>]]
        ((ControllerMapper_init False False)\<lparr>running := True\<rparr>))
       = [Error_Processing_Input (TransientInputError ''No gamepad found.'')]
   \<and> fst (process_events [\<lparr>ev_type = ''Key'', code = ''BTN_SOUTH'', state = 1\<rparr>]
        ((ControllerMapper_init False False)
           \<lparr>running := True, nx := Nxbt_init\<lparr>push_fails := True\<rparr>\<rparr>))
       = Some (PushFailure ''push rejected'')
   \<and> logger (input_cycle (Inr [\<lparr>ev_type = ''Key'', code = ''BTN_SOUTH'', state = 1\<rparr>])
        ((ControllerMapper_init False False)
           \<lparr>running := True, nx := Nxbt_init\<lparr>push_fails := True\<rparr>\<rparr>))
       = [Error_Processing_Input (PushFailure ''push rejected'')]
   \<and> running (input_cycle (Inr [\<lparr>ev_type = ''Key'', code = ''BTN_SOUTH'', state = 1\<rparr>])
        ((ControllerMapper_init False False)
           \<lparr>running := True, nx := Nxbt_init\<lparr>push_fails := True\<rparr>\<rparr>))"
proof -
  let ?a = "(ControllerMapper_init False False)\<lparr>running := True\<rparr>"
  let ?m = "(ControllerMapper_init False False)
              \<lparr>running := True, nx := Nxbt_init\<lparr>push_fails := True\<rparr>\<rparr>"
  let ?ev = "\<lparr>ev_type = ''Key'', code = ''BTN_SOUTH'', state = 1\<rparr>"
  let ?x = "TransientInputError ''No gamepad found.''"
  let ?a1 = "input_cycle (Inl ?x) ?a"
  have a1: "?a1 = ?a\<lparr>logger := [Error_Processing_Input ?x], slept_ms := 100\<rparr>"
    by (simp add: input_cycle_def handle_exception_def logger_error_def Let_def init_fields)
  have pa: "process_gamepad_event ?ev ?a1 =
      nx_set_controller_input
        (?a1\<lparr>current_input := set_button Buttons_B True (current_input ?a1)\<rparr>)"
    using process_key_mapped [of ?a1 ?ev Buttons_B]
    by (simp add: a1 init_fields init_button_mappings)
  have fa: "fst (process_events [?ev] ?a1) = None"
    and ba: "buttons (current_input (snd (process_events [?ev] ?a1))) Buttons_B"
    and ca: "length (input_calls (nx (snd (process_events [?ev] ?a1)))) = 1"
    and la: "logger (snd (process_events [?ev] ?a1)) = [Error_Processing_Input ?x]"
    by (simp_all add: pa nx_set_controller_input_def set_controller_input_def
        set_button_def, simp_all add: a1 init_fields Nxbt_init_def)
  have p: "process_gamepad_event ?ev ?m =
      nx_set_controller_input
        (?m\<lparr>current_input := set_button Buttons_B True (current_input ?m)\<rparr>)"
    using process_key_mapped [of ?m ?ev Buttons_B]
    by (simp add: init_fields init_button_mappings)
  have f: "fst (process_events [?ev] ?m) = Some (PushFailure ''push rejected'')"
    and l: "logger (snd (process_events [?ev] ?m)) = []"
    by (simp_all add: p nx_set_controller_input_def set_controller_input_def init_fields)
  have ra: "running ?a" and rm: "running ?m" by simp_all
  note t1 = input_cycle_error_continues [OF ra, of "Inl ?x" ?x "[Inr [?ev]]"]
  note t2 = input_cycle_error_continues [OF rm, of "Inr [?ev]" "PushFailure ''push rejected''" "[]"]
  from t1 fa have L: "input_loop [Inl ?x, Inr [?ev]] ?a = snd (process_events [?ev] ?a1)"
    by blast
  from t1 have g1: "logger ?a1 = logger ?a @ [Error_Processing_Input ?x]"
    and g2: "slept_ms ?a1 = slept_ms ?a + 100"
    and g3: "running (input_loop [Inl ?x, Inr [?ev]] ?a)"
    by blast+
  from t2 f have h1: "logger (input_cycle (Inr [?ev]) ?m) =
      logger (snd (process_events [?ev] ?m)) @ [Error_Processing_Input (PushFailure ''push rejected'')]"
    and h2: "running (input_cycle (Inr [?ev]) ?m)"
    by blast+
  have k1: "logger ?a1 = [Error_Processing_Input ?x]" using g1 by (simp add: init_fields)
  have k2: "slept_ms ?a1 = 100" using g2 by (simp add: init_fields)
  have k3: "logger (input_cycle (Inr [?ev]) ?m) =
      [Error_Processing_Input (PushFailure ''push rejected'')]"
    unfolding h1 l by simp
  show ?thesis
    using ra k1 k2 g3 ba [folded L] ca [folded L] la [folded L] f k3 h2
    by blast
qed

section \<open>At most one worker\<close>

lemma start_stop_invariant:
  assumes "input_thread s = None \<and> live_workers s = 0
           \<or> input_thread s \<noteq> None \<and> live_workers s = 1"
  shows "input_thread (start_input_processing s) \<noteq> None
         \<and> live_workers (start_input_processing s) = 1"
    and "input_thread (stop_input_processing s) = None
         \<and> live_workers (stop_input_processing s) = 0"
  using assms
  by (auto simp: start_input_processing_def stop_input_processing_def Let_def)

lemma run_calls_invariant:
  "input_thread s = None \<and> live_workers s = 0
     \<or> input_thread s \<noteq> None \<and> live_workers s = 1 \<Longrightarrow>
   input_thread (run_calls cs s) = None \<and> live_workers (run_calls cs s) = 0
     \<or> input_thread (run_calls cs s) \<noteq> None \<and> live_workers (run_calls cs s) = 1"
proof (induction cs arbitrary: s)
  case Nil
  then show ?case by simp
next
  case (Cons c cs)
  show ?case
  proof (cases c)
    case Start
    have "input_thread (start_input_processing s) \<noteq> None
          \<and> live_workers (start_input_processing s) = 1"
      using start_stop_invariant(1) [OF Cons.prems] .
    then show ?thesis using Cons.IH [of "start_input_processing s"] Start by simp
  next
    case Stop
    have "input_thread (stop_input_processing s) = None
          \<and> live_workers (stop_input_processing s) = 0"
      using start_stop_invariant(2) [OF Cons.prems] .
    then show ?thesis using Cons.IH [of "stop_input_processing s"] Stop by simp
  qed
qed

text \<open>
  Claim C10. \<open>start_input_processing\<close> on a mapper that already has an input thread
  returns the mapper as it is: no second worker, \<open>running\<close> and every other attribute
  untouched. So over any sequence of start and stop calls on a newly constructed mapper
  at most one worker exists, and there is one exactly when \<open>input_thread\<close> is set.
\<close>

theorem start_input_processing_single_worker:
  "(input_thread self \<noteq> None \<longrightarrow> start_input_processing self = self)
   \<and> live_workers (run_calls calls (ControllerMapper_init dbg tm)) \<le> 1
   \<and> (input_thread (run_calls calls (ControllerMapper_init dbg tm)) = None
        \<longleftrightarrow> live_workers (run_calls calls (ControllerMapper_init dbg tm)) = 0)"
proof -
  have "input_thread (ControllerMapper_init dbg tm) = None
        \<and> live_workers (ControllerMapper_init dbg tm) = 0
        \<or> input_thread (ControllerMapper_init dbg tm) \<noteq> None
        \<and> live_workers (ControllerMapper_init dbg tm) = 1"
    by (simp add: init_fields)
  from run_calls_invariant [OF this, of calls] show ?thesis
    by (auto simp: start_input_processing_def)
qed

theorem start_input_processing_single_worker_witness:
  "input_thread (start_input_processing (ControllerMapper_init False False)) \<noteq> None
   \<and> start_input_processing (start_input_processing (ControllerMapper_init False False))
       = start_input_processing (ControllerMapper_init False False)
   \<and> live_workers (run_calls [Start, Start, Stop, Start]
        (ControllerMapper_init False False)) = 1"
proof -
  have a: "input_thread (start_input_processing (ControllerMapper_init False False)) \<noteq> None"
    by (simp add: start_input_processing_def init_fields Let_def)
  have b: "live_workers (run_calls [Start, Start, Stop, Start]
        (ControllerMapper_init False False)) = 1"
    by (simp add: start_input_processing_def stop_input_processing_def init_fields Let_def)
  show ?thesis
    using start_input_processing_single_worker
      [of "start_input_processing (ControllerMapper_init False False)"
          "[Start, Start, Stop, Start]" False False] a b
    by simp
qed

section \<open>Connecting\<close>

lemma wait_for_connection_skip:
  "\<forall>j<n. lifecycle (reports (k + j)) \<noteq> ''connected''
         \<and> lifecycle (reports (k + j)) \<noteq> ''crashed'' \<Longrightarrow>
   wait_for_connection reports k = wait_for_connection reports (k + n)"
proof (induction n arbitrary: k)
  case 0
  then show ?case by simp
next
  case (Suc n)
  from Suc.prems have h: "lifecycle (reports k) \<noteq> ''connected''"
    "lifecycle (reports k) \<noteq> ''crashed''" by force+
  have "\<forall>j<n. lifecycle (reports (Suc k + j)) \<noteq> ''connected''
         \<and> lifecycle (reports (Suc k + j)) \<noteq> ''crashed''"
  proof (intro allI impI)
    fix j assume "j < n"
    then have "Suc j < Suc n" by simp
    with Suc.prems show "lifecycle (reports (Suc k + j)) \<noteq> ''connected''
         \<and> lifecycle (reports (Suc k + j)) \<noteq> ''crashed''"
      by (metis add_Suc_shift)
  qed
  from Suc.IH [OF this] have "wait_for_connection reports (Suc k)
    = wait_for_connection reports (k + Suc n)" by simp
  moreover have "wait_for_connection reports k = wait_for_connection reports (Suc k)"
    using h by (subst wait_for_connection.simps) simp
  ultimately show ?case by simp
qed

lemma wait_for_connection_returns:
  assumes "wait_for_connection reports k = Some r"
  shows "\<exists>j. lifecycle (reports j) = ''connected'' \<or> lifecycle (reports j) = ''crashed''"
proof (rule wait_for_connection.raw_induct
    [where P = "\<lambda>reports k r. \<exists>j. lifecycle (reports j) = ''connected''
                                  \<or> lifecycle (reports j) = ''crashed''", OF _ assms])
  fix wait :: "(nat \<Rightarrow> report) \<Rightarrow> nat \<Rightarrow> (exn + unit) option"
    and reports :: "nat \<Rightarrow> report" and k :: nat and r :: "exn + unit"
  assume ih: "\<And>reports k r. wait reports k = Some r \<Longrightarrow>
      \<exists>j. lifecycle (reports j) = ''connected'' \<or> lifecycle (reports j) = ''crashed''"
    and body: "(if lifecycle (reports k) = ''connected'' then Some (Inr ())
      else if lifecycle (reports k) = ''crashed''
      then Some (Inl (ConnectionError (errors (reports k))))
      else wait reports (Suc k)) = Some r"
  show "\<exists>j. lifecycle (reports j) = ''connected'' \<or> lifecycle (reports j) = ''crashed''"
  proof (cases "lifecycle (reports k) = ''connected'' \<or> lifecycle (reports k) = ''crashed''")
    case True
    then show ?thesis by blast
  next
    case False
    with body have "wait reports (Suc k) = Some r" by simp
    from ih [OF this] show ?thesis .
  qed
qed

lemma wait_for_connection_never:
  "\<forall>j. lifecycle (reports j) \<noteq> ''connected'' \<and> lifecycle (reports j) \<noteq> ''crashed'' \<Longrightarrow>
   wait_for_connection reports k = None"
  using wait_for_connection_returns [of reports k] by (cases "wait_for_connection reports k") auto

text \<open>
  Claim C5. Outside test mode \<open>connect_controller\<close> polls the endpoint's state until it
  reads \<open>connected\<close>, and then returns the session index, or \<open>crashed\<close>, and then raises
  \<open>ConnectionError\<close> with the error detail of that poll. It leaves \<open>input_thread\<close>,
  \<open>running\<close> and the workers as they were, and in \<open>main\<close> the exception skips the start
  of the input loop: only \<open>cleanup\<close> runs. While the endpoint reports neither state the
  poll goes on, so with an endpoint that never does \<open>connect_controller\<close> does not return.
\<close>

theorem connect_controller_outcome:
  assumes "\<not> test_mode self"
    and "\<forall>j<k. lifecycle (reports j) \<noteq> ''connected'' \<and> lifecycle (reports j) \<noteq> ''crashed''"
  shows "(lifecycle (reports k) = ''connected'' \<longrightarrow>
            connect_controller session_id reports controller_type self =
              Some (Inr session_id,
                    self\<lparr>nx := (nx self)\<lparr>created := created (nx self) @ [controller_type]\<rparr>,
                         controller_idx := Some session_id\<rparr>))
       \<and> (lifecycle (reports k) = ''crashed'' \<longrightarrow>
            connect_controller session_id reports controller_type self =
              Some (Inl (ConnectionError (errors (reports k))),
                    self\<lparr>nx := (nx self)\<lparr>created := created (nx self) @ [controller_type]\<rparr>,
                         controller_idx := Some session_id\<rparr>)
          \<and> main_startup session_id reports controller_type self =
              Some (Some (ConnectionError (errors (reports k))),
                    cleanup (self\<lparr>nx := (nx self)\<lparr>created :=
                                        created (nx self) @ [controller_type]\<rparr>,
                                  controller_idx := Some session_id\<rparr>))
          \<and> live_workers (cleanup (self\<lparr>nx := (nx self)\<lparr>created :=
                                        created (nx self) @ [controller_type]\<rparr>,
                                  controller_idx := Some session_id\<rparr>)) \<le> live_workers self)
       \<and> ((\<forall>j. lifecycle (reports j) \<noteq> ''connected'' \<and> lifecycle (reports j) \<noteq> ''crashed'')
            \<longrightarrow> connect_controller session_id reports controller_type self = None)"
proof -
  have w: "wait_for_connection reports 0 = wait_for_connection reports k"
    using wait_for_connection_skip [of k reports 0] assms(2) by simp
  have c: "lifecycle (reports k) = ''connected'' \<Longrightarrow>
      wait_for_connection reports 0 = Some (Inr ())"
    unfolding w by (subst wait_for_connection.simps) simp
  have d: "lifecycle (reports k) = ''crashed'' \<Longrightarrow>
      wait_for_connection reports 0 = Some (Inl (ConnectionError (errors (reports k))))"
    unfolding w by (subst wait_for_connection.simps) simp
  show ?thesis
  proof (intro conjI impI)
    assume "lifecycle (reports k) = ''connected''"
    from c [OF this] show "connect_controller session_id reports controller_type self =
              Some (Inr session_id,
                    self\<lparr>nx := (nx self)\<lparr>created := created (nx self) @ [controller_type]\<rparr>,
                         controller_idx := Some session_id\<rparr>)"
      using assms(1) by (simp add: connect_controller_def create_controller_def Let_def)
  next
    assume "lifecycle (reports k) = ''crashed''"
    from d [OF this] show cc: "connect_controller session_id reports controller_type self =
              Some (Inl (ConnectionError (errors (reports k))),
                    self\<lparr>nx := (nx self)\<lparr>created := created (nx self) @ [controller_type]\<rparr>,
                         controller_idx := Some session_id\<rparr>)"
      using assms(1) by (simp add: connect_controller_def create_controller_def Let_def)
    show "main_startup session_id reports controller_type self =
              Some (Some (ConnectionError (errors (reports k))),
                    cleanup (self\<lparr>nx := (nx self)\<lparr>created :=
                                        created (nx self) @ [controller_type]\<rparr>,
                                  controller_idx := Some session_id\<rparr>))"
      using assms(1) by (simp add: main_startup_def cc)
  next
    show "live_workers (cleanup (self\<lparr>nx := (nx self)\<lparr>created :=
                                        created (nx self) @ [controller_type]\<rparr>,
                                  controller_idx := Some session_id\<rparr>)) \<le> live_workers self"
      by (simp add: cleanup_def stop_input_processing_def Let_def)
  next
    assume "\<forall>j. lifecycle (reports j) \<noteq> ''connected'' \<and> lifecycle (reports j) \<noteq> ''crashed''"
    from wait_for_connection_never [OF this, of 0]
    show "connect_controller session_id reports controller_type self = None"
      using assms(1) by (simp add: connect_controller_def create_controller_def Let_def)
  qed
qed

theorem connect_controller_outcome_witness:
  "\<not> test_mode (ControllerMapper_init False False)
   \<and> lifecycle ((\<lambda>n::nat. if n < 2 then \<lparr>lifecycle = ''connecting'', errors = ''none''\<rparr>
                    else \<lparr>lifecycle = ''crashed'', errors = ''no adapter''\<rparr>) 0)
       = ''connecting''
   \<and> lifecycle ((\<lambda>n::nat. if n < 2 then \<lparr>lifecycle = ''connecting'', errors = ''none''\<rparr>
                    else \<lparr>lifecycle = ''crashed'', errors = ''no adapter''\<rparr>) 1)
       = ''connecting''
   \<and> lifecycle ((\<lambda>n::nat. if n < 2 then \<lparr>lifecycle = ''connecting'', errors = ''none''\<rparr>
                    else \<lparr>lifecycle = ''crashed'', errors = ''no adapter''\<rparr>) 2)
       = ''crashed''
   \<and> map_option fst (connect_controller 0
        (\<lambda>n. if n < 2 then \<lparr>lifecycle = ''connecting'', errors = ''none''\<rparr>
              else \<lparr>lifecycle = ''crashed'', errors = ''no adapter''\<rparr>)
        1 (ControllerMapper_init False False))
       = Some (Inl (ConnectionError ''no adapter''))
   \<and> map_option (input_thread \<circ> snd) (main_startup 0
        (\<lambda>n. if n < 2 then \<lparr>lifecycle = ''connecting'', errors = ''none''\<rparr>
              else \<lparr>lifecycle = ''crashed'', errors = ''no adapter''\<rparr>)
        1 (ControllerMapper_init False False))
       = Some None
   \<and> map_option fst (connect_controller 3
        (\<lambda>n. if n < 2 then \<lparr>lifecycle = ''connecting'', errors = ''none''\<rparr>
              else \<lparr>lifecycle = ''connected'', errors = ''none''\<rparr>)
        1 (ControllerMapper_init False False))
       = Some (Inr 3)
   \<and> connect_controller 3 (\<lambda>n. \<lparr>lifecycle = ''connecting'', errors = ''none''\<rparr>)
        1 (ControllerMapper_init False False) = None"
proof -
  let ?r = "\<lambda>n::nat. if n < 2 then \<lparr>lifecycle = ''connecting'', errors = ''none''\<rparr>
              else \<lparr>lifecycle = ''crashed'', errors = ''no adapter''\<rparr>"
  let ?c = "\<lambda>n::nat. if n < 2 then \<lparr>lifecycle = ''connecting'', errors = ''none''\<rparr>
              else \<lparr>lifecycle = ''connected'', errors = ''none''\<rparr>"
  let ?n = "\<lambda>n::nat. \<lparr>lifecycle = ''connecting'', errors = ''none''\<rparr>"
  have t: "\<not> test_mode (ControllerMapper_init False False)" by (simp add: init_fields)
  have h: "\<forall>j<2. lifecycle (?r j) \<noteq> ''connected'' \<and> lifecycle (?r j) \<noteq> ''crashed''"
    by simp
  have g: "\<forall>j<2. lifecycle (?c j) \<noteq> ''connected'' \<and> lifecycle (?c j) \<noteq> ''crashed''"
    by simp
  have z: "\<forall>j<0. lifecycle (?n j) \<noteq> ''connected'' \<and> lifecycle (?n j) \<noteq> ''crashed''"
    by simp
  show ?thesis
    using connect_controller_outcome [OF t h, of 0 1]
      connect_controller_outcome [OF t g, of 3 1]
      connect_controller_outcome [OF t z, of 3 1] t
    by (simp add: cleanup_def stop_input_processing_def Let_def init_fields)
qed

end
